theory Spec2Isabelle
  imports Complex_Main "HOL-Library.Char_ord" "HOL-Library.List_Lexorder" "HOL-Library.Word"
begin
section \<open>Errors and numbers\<close>

text \<open>
  Every \<^verbatim>\<open>raise\<close> of the two source files, and every failure of a Python
  primitive the source relies on, is a value of \<open>error\<close>. The \<^verbatim>\<open>KeyError\<close>s that
  \<^verbatim>\<open>read_excel\<close> raises differ only in their message; they are kept apart by
  constructor.
\<close>

datatype error =
    LengthsNotIdentical
      \<comment> \<open>\<^verbatim>\<open>Exception('Lengths of input sequences to ColorPalette() must be identical.')\<close>\<close>
  | PresetNotSupported
      \<comment> \<open>\<^verbatim>\<open>Exception('Preset %s not in list of supported presets.')\<close>\<close>
  | ValueError
  | IndexError
  | AttributeError
  | UnboundLocalError
  | KeyError string
      \<comment> \<open>a failed label lookup; the argument is the missing label\<close>
  | MissingRequiredColumns
      \<comment> \<open>\<^verbatim>\<open>KeyError('Input Excel file must specify the following columns: ...')\<close>\<close>
  | InvalidChannelGrouping "string list"
      \<comment> \<open>\<^verbatim>\<open>KeyError('... is not a valid channel grouping')\<close>, with the sorted channels\<close>
  | NoMeasurementData
      \<comment> \<open>\<^verbatim>\<open>KeyError('File must contain at least one of the following data columns: ...')\<close>\<close>
  | ReferenceCellsRequired
      \<comment> \<open>\<^verbatim>\<open>KeyError('Reference cells are required in A1 and B1!')\<close>\<close>
  | ParserError
      \<comment> \<open>\<^verbatim>\<open>pd.errors.ParserError\<close>\<close>
  | InvalidEmptyFirstRow
      \<comment> \<open>\<^verbatim>\<open>IndexError('Input file has invalid empty first data row.')\<close>\<close>
  | TypeError
  | OverflowError
  | ZeroDivisionError
  | Unmodelled
      \<comment> \<open>library behaviour that this theory does not describe; see \<open>unique_column\<close>,
          \<open>weak\<close> and \<open>cmap_init\<close>\<close>

text \<open>
  A float is an IEEE double. The finite ones are modelled by exact rationals (rounding
  is left out); the three special values are kept, because NumPy division by zero does
  not raise: it yields an infinity or NaN (with a warning only). Signed zeros are not
  distinguished.
\<close>

datatype npfloat = Fin rat | PInf | NInf | NaN

fun np_sub :: "npfloat \<Rightarrow> npfloat \<Rightarrow> npfloat" where
  "np_sub NaN _ = NaN"
| "np_sub _ NaN = NaN"
| "np_sub (Fin a) (Fin b) = Fin (a - b)"
| "np_sub (Fin a) PInf = NInf"
| "np_sub (Fin a) NInf = PInf"
| "np_sub PInf PInf = NaN"
| "np_sub PInf _ = PInf"
| "np_sub NInf NInf = NaN"
| "np_sub NInf _ = NInf"

fun np_div :: "npfloat \<Rightarrow> npfloat \<Rightarrow> npfloat" where
  "np_div NaN _ = NaN"
| "np_div _ NaN = NaN"
| "np_div (Fin a) (Fin b) =
     (if b = 0 then (if a = 0 then NaN else if 0 < a then PInf else NInf)
      else Fin (a / b))"
| "np_div (Fin a) _ = Fin 0"
| "np_div PInf (Fin b) = (if b < 0 then NInf else PInf)"
| "np_div NInf (Fin b) = (if b < 0 then PInf else NInf)"
| "np_div _ _ = NaN"

fun np_isnan :: "npfloat \<Rightarrow> bool" where
  "np_isnan NaN = True"
| "np_isnan _ = False"

text \<open>Sequencing of steps that can raise: the first error ends the computation.\<close>

definition and_then :: "'e + 'a \<Rightarrow> ('a \<Rightarrow> 'e + 'b) \<Rightarrow> 'e + 'b" where
  "and_then m f = (case m of Inl e \<Rightarrow> Inl e | Inr x \<Rightarrow> f x)"

text \<open>
  The numbers that reach \<^verbatim>\<open>ColorPalette\<close>: a Python \<^verbatim>\<open>int\<close> (unbounded), a Python
  \<^verbatim>\<open>float\<close>, a NumPy \<^verbatim>\<open>int64\<close> scalar (a 64-bit word read as signed: its arithmetic
  wraps, with a warning only) and a NumPy \<^verbatim>\<open>float64\<close> scalar. The conversion of an
  integer to a float is taken as exact.
\<close>

datatype number = PyInt int | PyFloat npfloat | NpInt "64 word" | NpFloat npfloat

fun is_numpy :: "number \<Rightarrow> bool" where
  "is_numpy (NpInt _) = True"
| "is_numpy (NpFloat _) = True"
| "is_numpy _ = False"

fun to_float :: "number \<Rightarrow> npfloat" where
  "to_float (PyInt i) = Fin (of_int i)"
| "to_float (PyFloat x) = x"
| "to_float (NpInt w) = Fin (of_int (sint w))"
| "to_float (NpFloat x) = x"

definition fits_int64 :: "int \<Rightarrow> bool" where
  "fits_int64 i = (- (2 ^ 63) \<le> i \<and> i < 2 ^ 63)"

text \<open>Subtraction and true division of two NumPy scalars (and, element by element, of a
  NumPy array and a NumPy scalar). Two \<^verbatim>\<open>int64\<close> subtract in \<^verbatim>\<open>int64\<close>, wrapping
  around; every other pair subtracts in \<^verbatim>\<open>float64\<close>. Division is always in
  \<^verbatim>\<open>float64\<close> and never raises.\<close>

fun np_minus :: "number \<Rightarrow> number \<Rightarrow> number" where
  "np_minus (NpInt x) (NpInt y) = NpInt (x - y)"
| "np_minus a b = NpFloat (np_sub (to_float a) (to_float b))"

definition np_true_divide :: "number \<Rightarrow> number \<Rightarrow> number" where
  "np_true_divide a b = NpFloat (np_div (to_float a) (to_float b))"

text \<open>A Python number that meets the NumPy scalar \<open>other\<close> in an operation takes the type
  of \<open>other\<close> when it is an \<^verbatim>\<open>int\<close>, and becomes a \<^verbatim>\<open>float64\<close> when it is a
  \<^verbatim>\<open>float\<close>. What happens to a Python \<^verbatim>\<open>int\<close> outside the range of \<^verbatim>\<open>int64\<close>
  that meets an \<^verbatim>\<open>int64\<close> depends on the version of NumPy and is not described
  (\<open>Unmodelled\<close>).\<close>

fun weak :: "number \<Rightarrow> number \<Rightarrow> error + number" where
  "weak (PyInt i) (NpInt _) = (if fits_int64 i then Inr (NpInt (word_of_int i)) else Inl Unmodelled)"
| "weak (PyInt i) _ = Inr (NpFloat (Fin (of_int i)))"
| "weak (PyFloat x) _ = Inr (NpFloat x)"
| "weak a _ = Inr a"

text \<open>\<^verbatim>\<open>a - b\<close> and \<^verbatim>\<open>a / b\<close> for any two numbers. With a NumPy scalar on either side
  the operation is NumPy's. Between two Python numbers, two \<^verbatim>\<open>int\<close>s subtract exactly
  and a division by zero raises \<^verbatim>\<open>ZeroDivisionError\<close>.\<close>

definition num_sub :: "number \<Rightarrow> number \<Rightarrow> error + number" where
  "num_sub a b =
     (if is_numpy a \<or> is_numpy b then
        and_then (weak a b) (\<lambda>a'. and_then (weak b a) (\<lambda>b'. Inr (np_minus a' b')))
      else (case (a, b) of
              (PyInt x, PyInt y) \<Rightarrow> Inr (PyInt (x - y))
            | _ \<Rightarrow> Inr (PyFloat (np_sub (to_float a) (to_float b)))))"

definition num_div :: "number \<Rightarrow> number \<Rightarrow> error + number" where
  "num_div a b =
     (if is_numpy a \<or> is_numpy b then
        and_then (weak a b) (\<lambda>a'. and_then (weak b a) (\<lambda>b'. Inr (np_true_divide a' b')))
      else if to_float b = Fin 0 then Inl ZeroDivisionError
      else Inr (PyFloat (np_div (to_float a) (to_float b))))"

text \<open>What \<^verbatim>\<open>np.array(z)\<close> returns for a sequence of numbers: an array of \<^verbatim>\<open>int64\<close>
  or an array of finite \<^verbatim>\<open>float64\<close>. \<open>elems\<close> lists its elements as NumPy scalars.\<close>

datatype ndarray = IntArr "64 word list" | FloatArr "rat list"

fun elems :: "ndarray \<Rightarrow> number list" where
  "elems (IntArr ws) = map NpInt ws"
| "elems (FloatArr rs) = map (\<lambda>r. NpFloat (Fin r)) rs"

text \<open>The value of a finite number, as a rational.\<close>

fun np_value :: "number \<Rightarrow> rat" where
  "np_value (PyInt i) = of_int i"
| "np_value (NpInt w) = of_int (sint w)"
| "np_value (PyFloat (Fin r)) = r"
| "np_value (NpFloat (Fin r)) = r"
| "np_value _ = 0"

text \<open>\<^verbatim>\<open>ndarray.min()\<close> and \<^verbatim>\<open>ndarray.max()\<close>: a \<^verbatim>\<open>ValueError\<close> on an empty array.\<close>

definition num_min :: "number \<Rightarrow> number \<Rightarrow> number" where
  "num_min x acc = (if np_value x < np_value acc then x else acc)"

definition num_max :: "number \<Rightarrow> number \<Rightarrow> number" where
  "num_max x acc = (if np_value acc \<le> np_value x then x else acc)"

definition amin :: "ndarray \<Rightarrow> error + number" where
  "amin z = (case elems z of [] \<Rightarrow> Inl ValueError | e # es \<Rightarrow> Inr (fold num_min es e))"

definition amax :: "ndarray \<Rightarrow> error + number" where
  "amax z = (case elems z of [] \<Rightarrow> Inl ValueError | e # es \<Rightarrow> Inr (fold num_max es e))"

section \<open>The colour palette (\<^verbatim>\<open>colors/cpalette.py\<close>)\<close>

type_synonym rgb = "rat \<times> rat \<times> rat"
type_synonym rgba = "rat list"
  \<comment> \<open>a colour tuple: red, green, blue and, when there is a fourth number, alpha\<close>

text \<open>One row of a channel of \<^verbatim>\<open>cdict\<close>: the position \<^verbatim>\<open>x[i]\<close>, the value on
  arrival (taken from \<^verbatim>\<open>rgb1_t\<close>) and the value on leaving (taken from \<^verbatim>\<open>rgb0_t\<close>).\<close>

type_synonym seg_row = "npfloat \<times> rat \<times> rat"

record cdict =
  red :: "seg_row list"
  green :: "seg_row list"
  blue :: "seg_row list"

text \<open>What \<^verbatim>\<open>LinearSegmentedColormap(name, cdict)\<close> followed by \<^verbatim>\<open>set_bad(nan_color)\<close>
  holds: the name, the segment data and the colour for bad values.\<close>

record colormap =
  cm_name :: string
  segmentdata :: cdict
  bad :: rgba

record ColorPalette =
  p_vmin :: number
  p_vmax :: number
  nan_color :: "rgba option"
  p_cdict :: cdict
  p_cmap :: colormap

definition B :: rat where
  "B = - (999 / 1000) * 255"

definition E :: rat where
  "E = (999 / 1000) * 255"

text \<open>The loop \<^verbatim>\<open>for i in range(0, len(x))\<close>: row \<open>i\<close> reads \<^verbatim>\<open>x[i]\<close>,
  \<^verbatim>\<open>rgb1_t[i]\<close> and \<^verbatim>\<open>rgb0_t[i]\<close>; reading past the end of either colour list is
  an \<^verbatim>\<open>IndexError\<close>.\<close>

fun cdict_loop :: "npfloat list \<Rightarrow> rgb list \<Rightarrow> rgb list \<Rightarrow> cdict \<Rightarrow> error + cdict" where
  "cdict_loop [] rgb1_t rgb0_t cd = Inr cd"
| "cdict_loop (xi # x) ((r1, g1, b1) # rgb1_t) ((r0, g0, b0) # rgb0_t) cd =
     cdict_loop x rgb1_t rgb0_t
       (cd\<lparr>red := red cd @ [(xi, r1 / 255, r0 / 255)],
           green := green cd @ [(xi, g1 / 255, g0 / 255)],
           blue := blue cd @ [(xi, b1 / 255, b0 / 255)]\<rparr>)"
| "cdict_loop (xi # x) _ _ cd = Inl IndexError"

text \<open>The test of line 70 is a chained comparison:
  \<^verbatim>\<open>len(z0) != len(z1) != len(rgb0) != len(rgb1)\<close> is
  \<^verbatim>\<open>len(z0) != len(z1) and len(z1) != len(rgb0) and len(rgb0) != len(rgb1)\<close>.\<close>

definition lengths_differ :: "number list \<Rightarrow> number list \<Rightarrow> rgb list \<Rightarrow> rgb list \<Rightarrow> bool" where
  "lengths_differ z0 z1 rgb0 rgb1 =
     (length z0 \<noteq> length z1 \<and> length z1 \<noteq> length rgb0 \<and> length rgb0 \<noteq> length rgb1)"

text \<open>Line 111, \<^verbatim>\<open>self._cmap.set_bad(self.nan_color)\<close>, converts the colour with the
  plotting library's \<^verbatim>\<open>to_rgba\<close> and stores the result. The conversion raises
  \<^verbatim>\<open>ValueError\<close> for \<^verbatim>\<open>None\<close> (the default of \<^verbatim>\<open>nan_color\<close>), for a tuple that
  has not three or four numbers, and for a number outside 0..1; three numbers get the
  alpha 1.\<close>

definition valid_rgba :: "rgba \<Rightarrow> bool" where
  "valid_rgba c = ((length c = 3 \<or> length c = 4) \<and> list_all (\<lambda>x. 0 \<le> x \<and> x \<le> 1) c)"

definition to_rgba :: "rgba option \<Rightarrow> error + rgba" where
  "to_rgba color =
     (case color of
        None \<Rightarrow> Inl ValueError
      | Some c \<Rightarrow>
          if valid_rgba c then Inr (if length c = 3 then c @ [1] else c) else Inl ValueError)"

text \<open>The constructor. \<open>z0\<close> and \<open>z1\<close> are the arrays that \<^verbatim>\<open>np.array(z0)\<close> and
  \<^verbatim>\<open>np.array(z1)\<close> return. The subtractions and divisions of lines 80 and 81 are
  NumPy's: they wrap around in \<^verbatim>\<open>int64\<close> and divide by zero without raising.\<close>

definition adjust :: "number \<Rightarrow> number \<Rightarrow> ndarray \<Rightarrow> npfloat list" where
  "adjust vmin vmax z =
     map (\<lambda>e. to_float (np_true_divide (np_minus e vmin) (np_minus vmax vmin))) (elems z)"

definition ColorPalette_init ::
  "string \<Rightarrow> ndarray \<Rightarrow> ndarray \<Rightarrow> rgb list \<Rightarrow> rgb list \<Rightarrow> rgba option
     \<Rightarrow> error + ColorPalette" where
  "ColorPalette_init name z0 z1 rgb0 rgb1 nan =
     (if lengths_differ (elems z0) (elems z1) rgb0 rgb1 then Inl LengthsNotIdentical
      else case amin z0 of Inl e \<Rightarrow> Inl e | Inr vmin \<Rightarrow>
        (case amax z1 of Inl e \<Rightarrow> Inl e | Inr vmax \<Rightarrow>
          (let adj_z0 = adjust vmin vmax z0;
               adj_z1 = adjust vmin vmax z1;
               rgb0_t = rgb0 @ [(E, E, E)];
               rgb1_t = (B, B, B) # rgb1;
               x = adj_z0 @ [last adj_z1]
           in case cdict_loop x rgb1_t rgb0_t \<lparr>red = [], green = [], blue = []\<rparr> of
                Inl e \<Rightarrow> Inl e
              | Inr cd \<Rightarrow>
                  (case to_rgba nan of
                     Inl e \<Rightarrow> Inl e
                   | Inr bc \<Rightarrow>
                       Inr \<lparr>p_vmin = vmin, p_vmax = vmax, nan_color = nan, p_cdict = cd,
                            p_cmap = \<lparr>cm_name = name, segmentdata = cd, bad = bc\<rparr>\<rparr>))))"

text \<open>The property setters of \<^verbatim>\<open>vmin\<close> and \<^verbatim>\<open>vmax\<close> store the number they are
  given, of whatever type.\<close>

definition vmin_set :: "number \<Rightarrow> ColorPalette \<Rightarrow> ColorPalette" where
  "vmin_set v p = p\<lparr>p_vmin := v\<rparr>"

definition vmax_set :: "number \<Rightarrow> ColorPalette \<Rightarrow> ColorPalette" where
  "vmax_set v p = p\<lparr>p_vmax := v\<rparr>"

text \<open>\<^verbatim>\<open>getDataColor\<close> normalises the value (line 238: \<^verbatim>\<open>value - self.vmin\<close>, then
  \<^verbatim>\<open>self.vmax - self.vmin\<close>, then the division) and calls the colormap on the
  resulting float. The colormap call is the plotting library's; it is the parameter
  \<open>call\<close>.\<close>

definition normvalue :: "ColorPalette \<Rightarrow> number \<Rightarrow> error + number" where
  "normvalue p v =
     and_then (num_sub v (p_vmin p)) (\<lambda>a.
     and_then (num_sub (p_vmax p) (p_vmin p)) (\<lambda>b. num_div a b))"

definition getDataColor ::
  "(colormap \<Rightarrow> npfloat \<Rightarrow> error + 'c) \<Rightarrow> ColorPalette \<Rightarrow> number \<Rightarrow> error + 'c" where
  "getDataColor call p v = and_then (normvalue p v) (\<lambda>t. call (p_cmap p) (to_float t))"

subsection \<open>Presets\<close>






subsection \<open>Python string primitives\<close>

text \<open>Strings are ASCII. \<^verbatim>\<open>s.startswith(p)\<close>, \<^verbatim>\<open>s.split(c)\<close> for a one-character
  separator, \<^verbatim>\<open>s.strip()\<close> and \<^verbatim>\<open>s.upper()\<close>.\<close>

definition startswith :: "string \<Rightarrow> string \<Rightarrow> bool" where
  "startswith s p = (take (length p) s = p)"

fun split_on :: "char \<Rightarrow> string \<Rightarrow> string list" where
  "split_on c [] = [[]]"
| "split_on c (x # xs) =
     (if x = c then [] # split_on c xs
      else (case split_on c xs of [] \<Rightarrow> [[x]] | w # ws \<Rightarrow> (x # w) # ws))"

definition is_space :: "char \<Rightarrow> bool" where
  "is_space c = (let n = (of_char c :: nat) in (9 \<le> n \<and> n \<le> 13) \<or> (28 \<le> n \<and> n \<le> 32))"

definition strip :: "string \<Rightarrow> string" where
  "strip s = rev (dropWhile is_space (rev (dropWhile is_space s)))"

definition upper_char :: "char \<Rightarrow> char" where
  "upper_char c = (let n = (of_char c :: nat) in if 97 \<le> n \<and> n \<le> 122 then char_of (n - 32) else c)"

definition upper :: "string \<Rightarrow> string" where
  "upper s = map upper_char s"

subsection \<open>Palette files\<close>

text \<open>The first loop of \<^verbatim>\<open>fromFile\<close>, over \<^verbatim>\<open>f.readlines()\<close>; \<open>directive\<close> is its
  body for one line. The state is
  \<^verbatim>\<open>(nan_color, name)\<close>. Both branches test the prefix \<^verbatim>\<open>#$nan_color\<close>, as the
  source does (lines 171 and 176), so the second branch is never taken. \<^verbatim>\<open>int\<close> is
  Python's; it is the parameter \<open>int_of\<close>, with \<open>None\<close> for its \<^verbatim>\<open>ValueError\<close>.\<close>

fun int_all :: "(string \<Rightarrow> int option) \<Rightarrow> string list \<Rightarrow> error + rgba" where
  "int_all int_of [] = Inr []"
| "int_all int_of (v # vs) =
     (case int_of v of
        None \<Rightarrow> Inl ValueError
      | Some n \<Rightarrow> (case int_all int_of vs of Inl e \<Rightarrow> Inl e | Inr ns \<Rightarrow> Inr (of_int n # ns)))"

definition directive :: "(string \<Rightarrow> int option) \<Rightarrow> string \<Rightarrow> rgba \<times> string \<Rightarrow> error + rgba \<times> string" where
  "directive int_of line st =
     (case st of (nan, name) \<Rightarrow>
        if startswith line ''#$nan_color'' then
          (case split_on CHR '':'' (drop 2 line) of
             _ # p1 # _ \<Rightarrow>
               (case int_all int_of (split_on CHR '','' p1) of
                  Inl e \<Rightarrow> Inl e
                | Inr colortuple \<Rightarrow> Inr (colortuple, name))
           | _ \<Rightarrow> Inl IndexError)
        else if startswith line ''#$nan_color'' then
          (case split_on CHR '':'' (drop 2 line) of
             _ # p1 # _ \<Rightarrow> Inr (nan, strip p1)
           | _ \<Rightarrow> Inl IndexError)
        else Inr (nan, name))"

fun directives ::
  "(string \<Rightarrow> int option) \<Rightarrow> string list \<Rightarrow> rgba \<times> string \<Rightarrow> error + rgba \<times> string" where
  "directives int_of [] st = Inr st"
| "directives int_of (line # ls) st =
     (case directive int_of line st of Inl e \<Rightarrow> Inl e | Inr st' \<Rightarrow> directives int_of ls st')"

text \<open>The table that \<^verbatim>\<open>pd.read_table\<close> parses from a palette file under the header
  \<^verbatim>\<open>Z0 R0 G0 B0 Z1 R1 G1 B1\<close>, column by column. The parsing is pandas's:
  \<^verbatim>\<open>fromFile\<close> takes the lines of the file and the table parsed from the same file.
  \<^verbatim>\<open>list(zip(df.R0, df.G0, df.B0))\<close> stops at the shortest column.\<close>

record palette_table =
  Z0 :: ndarray
  R0 :: "rat list"
  G0 :: "rat list"
  B0 :: "rat list"
  Z1 :: ndarray
  R1 :: "rat list"
  G1 :: "rat list"
  B1 :: "rat list"

definition zip3 :: "rat list \<Rightarrow> rat list \<Rightarrow> rat list \<Rightarrow> rgb list" where
  "zip3 rs gs bs = zip rs (zip gs bs)"

definition fromFile ::
  "(string \<Rightarrow> int option) \<Rightarrow> string list \<Rightarrow> palette_table \<Rightarrow> error + ColorPalette" where
  "fromFile int_of lines df =
     (case directives int_of lines ([0, 0, 0, 0], ''generic'') of
        Inl e \<Rightarrow> Inl e
      | Inr (nan, name) \<Rightarrow>
          ColorPalette_init name (Z0 df) (Z1 df)
            (zip3 (R0 df) (G0 df) (B0 df)) (zip3 (R1 df) (G1 df) (B1 df)) (Some nan))"

subsection \<open>The colormap lookup\<close>





definition clip :: "rat \<Rightarrow> rat" where
  "clip y = max 0 (min 1 y)"



subsection \<open>Auxiliary definitions for the statements about the palette\<close>

text \<open>An input colour with its channels scaled to 0..1 (divided by 255, and clipped as
  the colormap clips them) and alpha 1. For channels within 0..255 the clipping changes
  nothing.\<close>

definition scaled :: "rgb \<Rightarrow> rgba" where
  "scaled c = (case c of (r, g, b) \<Rightarrow> [clip (r / 255), clip (g / 255), clip (b / 255), 1])"








section \<open>Station tables (\<^verbatim>\<open>io/table.py\<close>)\<close>

subsection \<open>Constants\<close>

definition REQUIRED_COLUMNS :: "string list" where
  "REQUIRED_COLUMNS = [''STATION'', ''LAT'', ''LON'', ''NETID'']"

definition OPTIONAL :: "string list" where
  "OPTIONAL = [''NAME'', ''DISTANCE'', ''REFERENCE'', ''INTENSITY'', ''SOURCE'', ''LOC'',
               ''INSTTYPE'', ''ELEV'', ''NRESP'', ''INTENSITY_STDDEV'']"

definition PGM_COLS :: "string list" where
  "PGM_COLS = [''PGA'', ''PGV'', ''SA(0.3)'', ''SA(1.0)'', ''SA(3.0)'']"

text \<open>The regular expressions of \<^verbatim>\<open>CHANNEL_GROUPS\<close> and \<^verbatim>\<open>CHANNEL_PATTERNS\<close> are
  sequences of one-character atoms: a literal, a character class, or \<^verbatim>\<open>[A-Z]\<close>.
  \<^verbatim>\<open>[A-Z]{2}E\<close> is \<open>[Upper, Upper, Chr E]\<close>. In a class such as \<^verbatim>\<open>[H,B]\<close> the comma
  is a member of the class.\<close>

datatype atom = Chr char | OneOf string | Upper

fun atom_ok :: "atom \<Rightarrow> char \<Rightarrow> bool" where
  "atom_ok (Chr a) c = (c = a)"
| "atom_ok (OneOf cs) c = (c \<in> set cs)"
| "atom_ok Upper c = (let n = (of_char c :: nat) in 65 \<le> n \<and> n \<le> 90)"

text \<open>What is left of the string after the atoms have matched at its start.\<close>

fun match_at :: "atom list \<Rightarrow> string \<Rightarrow> string option" where
  "match_at [] s = Some s"
| "match_at (a # as) [] = None"
| "match_at (a # as) (c # s) = (if atom_ok a c then match_at as s else None)"

text \<open>\<^verbatim>\<open>re.compile(p).match(s)\<close> matches at the start of \<open>s\<close> and need not reach
  its end.\<close>

definition re_match :: "atom list \<Rightarrow> string \<Rightarrow> bool" where
  "re_match p s = (match_at p s \<noteq> None)"

text \<open>\<^verbatim>\<open>re.search('^...$', s)\<close>: the atoms match from the start, and \<^verbatim>\<open>$\<close> matches at
  the end of the string or before a newline that ends it.\<close>

definition re_search_anchored :: "atom list \<Rightarrow> string \<Rightarrow> bool" where
  "re_search_anchored p s =
     (case match_at p s of None \<Rightarrow> False | Some r \<Rightarrow> r = [] \<or> r = [CHR 0x0A])"

definition CHANNEL_GROUPS :: "atom list list list" where
  "CHANNEL_GROUPS =
     [[[Upper, Upper, Chr CHR ''E''], [Upper, Upper, Chr CHR ''N''], [Upper, Upper, Chr CHR ''Z'']],
      [[Upper, Upper, Chr CHR ''1''], [Upper, Upper, Chr CHR ''2''], [Upper, Upper, Chr CHR ''Z'']],
      [[Chr CHR ''H'', Chr CHR ''1''], [Chr CHR ''H'', Chr CHR ''2''], [Chr CHR ''Z'']],
      [[Chr CHR ''U'', Chr CHR ''N'', Chr CHR ''K'']]]"

definition CHANNEL_PATTERNS :: "atom list list" where
  "CHANNEL_PATTERNS =
     [[OneOf ''H,B'', OneOf ''H,L,N'', OneOf ''E,N,Z,1,2,3''],
      [Chr CHR ''H'', OneOf ''1,2''],
      [Chr CHR ''Z'']]"

subsection \<open>Data frames\<close>

text \<open>A cell holds a string or a number; an empty cell is \<open>Num NaN\<close>. A frame has its
  column labels, the labels of its rows and its rows, each row aligned with the columns.
  With \<^verbatim>\<open>MultiIndex\<close> columns (\<open>multi\<close>) a label is a pair of a top header and a
  subheader; a flat frame uses the first component only.\<close>

datatype cell = Str string | Num npfloat

record dataframe =
  multi :: bool
  columns :: "(string \<times> string) list"
  index :: "cell list"
  rows :: "cell list list"

text \<open>\<^verbatim>\<open>df.columns.levels[0]\<close>: the distinct top headers, sorted.\<close>

definition levels0 :: "dataframe \<Rightarrow> string list" where
  "levels0 df = sort (remdups (map fst (columns df)))"

text \<open>A Python set of strings as the list of its members, in the order of first
  occurrence; \<^verbatim>\<open>(set(top_headers) - set(REQUIRED_COLUMNS)) - set(OPTIONAL)\<close>.\<close>

definition py_set :: "string list \<Rightarrow> string list" where
  "py_set xs = rev (remdups (rev xs))"

definition channel_set :: "string list \<Rightarrow> string list" where
  "channel_set top_headers =
     filter (\<lambda>h. h \<notin> set OPTIONAL) (filter (\<lambda>h. h \<notin> set REQUIRED_COLUMNS) (py_set top_headers))"

subsection \<open>\<^verbatim>\<open>read_excel\<close>: the channel headers\<close>

text \<open>\<^verbatim>\<open>len(list(filter(cp.match, channels)))\<close> is not zero.\<close>

definition any_match :: "atom list \<Rightarrow> string list \<Rightarrow> bool" where
  "any_match p channels = (filter (re_match p) channels \<noteq> [])"

text \<open>The inner loop: the number of patterns of the group that match some channel.\<close>

definition num_channels :: "atom list list \<Rightarrow> string list \<Rightarrow> nat" where
  "num_channels channel_group channels = length (filter (\<lambda>p. any_match p channels) channel_group)"

text \<open>The loop over \<^verbatim>\<open>CHANNEL_GROUPS\<close>, with its two \<^verbatim>\<open>break\<close>s; the result is
  \<^verbatim>\<open>valid\<close>. \<^verbatim>\<open>channel_group[0]\<close> and \<^verbatim>\<open>channel_group[1]\<close> are read when more than
  one pattern matched; a group too short for that is an \<^verbatim>\<open>IndexError\<close>.\<close>

fun groups_valid :: "atom list list list \<Rightarrow> string list \<Rightarrow> error + bool" where
  "groups_valid [] channels = Inr False"
| "groups_valid (channel_group # gs) channels =
     (let n = num_channels channel_group channels in
      if n = 1 \<and> length channels = 1 then Inr True
      else if n > 1 then
        (case channel_group of
           h1_pat # h2_pat # _ \<Rightarrow>
             if any_match h1_pat channels \<or> any_match h2_pat channels then Inr True
             else groups_valid gs channels
         | _ \<Rightarrow> Inl IndexError)
      else groups_valid gs channels)"

definition channels_valid :: "string list \<Rightarrow> error + bool" where
  "channels_valid channels =
     (if length channels \<noteq> 0 then groups_valid CHANNEL_GROUPS channels else Inr True)"

subsection \<open>\<^verbatim>\<open>read_excel\<close>: the frame\<close>

definition lower_char :: "char \<Rightarrow> char" where
  "lower_char c = (let n = (of_char c :: nat) in if 65 \<le> n \<and> n \<le> 90 then char_of (n + 32) else c)"

definition lower :: "string \<Rightarrow> string" where
  "lower s = map lower_char s"

text \<open>The three cells of the worksheet that \<^verbatim>\<open>read_excel\<close> reads through openpyxl:
  \<^verbatim>\<open>A1\<close> (\<^verbatim>\<open>topleft\<close>), \<^verbatim>\<open>B1\<close> (\<^verbatim>\<open>_move(topleft, 0, 1)\<close>, the reference) and
  \<^verbatim>\<open>A3\<close> (\<^verbatim>\<open>second_cell\<close>). \<open>None\<close> is an empty cell.\<close>

record sheet =
  A1 :: "cell option"
  B1 :: "cell option"
  A3 :: "cell option"

text \<open>\<^verbatim>\<open>df['NAME'] = df['NAME'].fillna('')\<close>: the empty cells under the top header
  \<^verbatim>\<open>NAME\<close> become empty strings.\<close>

definition fillna_name :: "dataframe \<Rightarrow> dataframe" where
  "fillna_name df =
     (if ''NAME'' \<in> set (map fst (columns df)) then
        df\<lparr>rows := map (\<lambda>r. map (\<lambda>((t, s), c). if t = ''NAME'' \<and> c = Num NaN then Str '''' else c)
                                  (zip (columns df) r)) (rows df)\<rparr>
      else df)"

text \<open>Lines 148 to 150: both levels of the column labels in upper case.\<close>

definition upper_columns :: "dataframe \<Rightarrow> dataframe" where
  "upper_columns df = df\<lparr>multi := True, columns := map (\<lambda>(t, s). (upper t, upper s)) (columns df)\<rparr>"

text \<open>Lines 158 and 159: a new column \<^verbatim>\<open>STATION\<close> holding the row labels, and the row
  labels reset to \<open>0, 1, ...\<close>.\<close>

definition station_from_index :: "dataframe \<Rightarrow> dataframe" where
  "station_from_index df =
     df\<lparr>columns := columns df @ [(''STATION'', '''')],
        rows := map (\<lambda>(r, i). r @ [i]) (zip (rows df) (index df)),
        index := map (\<lambda>n. Num (Fin (of_nat n))) [0..<length (rows df)]\<rparr>"

text \<open>\<^verbatim>\<open>replace(empty_cell, np.nan)\<close> followed by \<^verbatim>\<open>astype(float)\<close> on one cell: a string
  in which \<^verbatim>\<open>\s+\<close> is found becomes NaN, any other string goes through Python's
  \<^verbatim>\<open>float\<close> (the parameter \<open>float_of\<close>, \<open>None\<close> for its \<^verbatim>\<open>ValueError\<close>), a number
  stays.\<close>

definition coerce_cell :: "(string \<Rightarrow> npfloat option) \<Rightarrow> cell \<Rightarrow> error + cell" where
  "coerce_cell float_of c =
     (case c of
        Num x \<Rightarrow> Inr (Num x)
      | Str s \<Rightarrow>
          if list_ex is_space s then Inr (Num NaN)
          else (case float_of s of None \<Rightarrow> Inl ValueError | Some x \<Rightarrow> Inr (Num x)))"

fun map_err :: "('a \<Rightarrow> 'e + 'b) \<Rightarrow> 'a list \<Rightarrow> 'e + 'b list" where
  "map_err f [] = Inr []"
| "map_err f (x # xs) =
     (case f x of
        Inl e \<Rightarrow> Inl e
      | Inr y \<Rightarrow> (case map_err f xs of Inl e \<Rightarrow> Inl e | Inr ys \<Rightarrow> Inr (y # ys)))"

text \<open>The coercion of the column \<^verbatim>\<open>column\<close> under the channel \<^verbatim>\<open>channel\<close>, written
  back into the frame (\<^verbatim>\<open>df[channel] = channel_df\<close>).\<close>

definition coerce_column ::
  "(string \<Rightarrow> npfloat option) \<Rightarrow> string \<Rightarrow> string \<Rightarrow> dataframe \<Rightarrow> error + dataframe" where
  "coerce_column float_of channel column df =
     (case map_err (\<lambda>r. map_err (\<lambda>(l, c). if l = (channel, column) then coerce_cell float_of c else Inr c)
                            (zip (columns df) r)) (rows df) of
        Inl e \<Rightarrow> Inl e
      | Inr rs \<Rightarrow> Inr (df\<lparr>rows := rs\<rparr>))"

text \<open>\<^verbatim>\<open>column in channel_df\<close>. With \<^verbatim>\<open>MultiIndex\<close> columns \<^verbatim>\<open>df[channel]\<close> is the
  frame of the columns under \<^verbatim>\<open>channel\<close>, and the test is on its column labels. In a
  flat frame \<^verbatim>\<open>df[channel]\<close> is a column and the test is on the row labels, which are
  the integers that \<^verbatim>\<open>index_col=None\<close> gives: no name of \<^verbatim>\<open>PGM_COLS\<close> is among
  them.\<close>

definition in_channel_df :: "dataframe \<Rightarrow> string \<Rightarrow> string \<Rightarrow> bool" where
  "in_channel_df df channel column = (multi df \<and> (channel, column) \<in> set (columns df))"

text \<open>The loops of lines 197 to 205; the state is \<^verbatim>\<open>(found, df)\<close>.\<close>

fun pgm_loop ::
  "(string \<Rightarrow> npfloat option) \<Rightarrow> string \<Rightarrow> string list \<Rightarrow> bool \<times> dataframe
     \<Rightarrow> error + bool \<times> dataframe" where
  "pgm_loop float_of channel [] st = Inr st"
| "pgm_loop float_of channel (column # cols) (found, df) =
     (if in_channel_df df channel column then
        (case coerce_column float_of channel column df of
           Inl e \<Rightarrow> Inl e
         | Inr df' \<Rightarrow> pgm_loop float_of channel cols (True, df'))
      else pgm_loop float_of channel cols (found, df))"

fun channel_loop ::
  "(string \<Rightarrow> npfloat option) \<Rightarrow> string list \<Rightarrow> bool \<times> dataframe \<Rightarrow> error + bool \<times> dataframe" where
  "channel_loop float_of [] st = Inr st"
| "channel_loop float_of (channel # chs) st =
     (case pgm_loop float_of channel PGM_COLS st of
        Inl e \<Rightarrow> Inl e
      | Inr st' \<Rightarrow> channel_loop float_of chs st')"

text \<open>\<^verbatim>\<open>read_excel\<close>, from line 156 on: the checks on a frame and its top headers.\<close>

definition check_frame ::
  "(string \<Rightarrow> npfloat option) \<Rightarrow> dataframe \<Rightarrow> string list \<Rightarrow> error + dataframe" where
  "check_frame float_of df0 top_headers0 =
     (case (if ''STATION'' \<notin> set top_headers0 then
              (if multi df0 then Inr (station_from_index df0, levels0 (station_from_index df0))
               else Inl AttributeError)
            else Inr (df0, top_headers0)) of
        Inl e \<Rightarrow> Inl e
      | Inr (df, top_headers) \<Rightarrow>
          if \<not> list_all (\<lambda>c. c \<in> set top_headers) REQUIRED_COLUMNS then Inl MissingRequiredColumns
          else
            (let channels = channel_set top_headers in
             case channels_valid channels of
               Inl e \<Rightarrow> Inl e
             | Inr valid \<Rightarrow>
                 if \<not> valid then Inl (InvalidChannelGrouping (sort channels))
                 else
                   (case channel_loop float_of channels (''INTENSITY'' \<in> set top_headers, df) of
                      Inl e \<Rightarrow> Inl e
                    | Inr (found, df') \<Rightarrow>
                        if \<not> found then Inl NoMeasurementData else Inr df')))"

text \<open>\<^verbatim>\<open>read_excel\<close>. The workbook is read by openpyxl and pandas: the function takes
  the three cells of the sheet and \<open>parsed\<close>, what \<^verbatim>\<open>pd.read_excel\<close> returns for the
  header layout that the sheet selects (\<^verbatim>\<open>header=[1, 2]\<close> when \<^verbatim>\<open>A3\<close> is empty,
  \<^verbatim>\<open>skiprows=[0]\<close> otherwise), or the error it raises. The result is the frame and the
  reference.\<close>

definition read_excel ::
  "(string \<Rightarrow> npfloat option) \<Rightarrow> sheet \<Rightarrow> error + dataframe
     \<Rightarrow> error + dataframe \<times> cell option" where
  "read_excel float_of ws parsed =
     (case A1 ws of
        Some (Str v) \<Rightarrow>
          if lower v \<noteq> ''reference'' then Inl ReferenceCellsRequired
          else
            (case (if A3 ws = None then
                     (case parsed of
                        Inl ParserError \<Rightarrow> Inl InvalidEmptyFirstRow
                      | Inl e \<Rightarrow> Inl e
                      | Inr df \<Rightarrow>
                          Inr (upper_columns (fillna_name df), levels0 (upper_columns (fillna_name df))))
                   else
                     (case parsed of
                        Inl e \<Rightarrow> Inl e
                      | Inr df \<Rightarrow> Inr (df, map fst (columns df)))) of
               Inl e \<Rightarrow> Inl e
             | Inr (df, top_headers) \<Rightarrow>
                 (case check_frame float_of df top_headers of
                    Inl e \<Rightarrow> Inl e
                  | Inr df' \<Rightarrow> Inr (df', B1 ws)))
      | _ \<Rightarrow> Inl AttributeError)"

subsection \<open>\<^verbatim>\<open>_get_channels\<close> and \<^verbatim>\<open>_translate_imt\<close>\<close>

text \<open>A column is kept when one of \<^verbatim>\<open>CHANNEL_PATTERNS\<close> is found in it.\<close>

definition get_channels :: "string list \<Rightarrow> string list" where
  "get_channels cols =
     filter (\<lambda>column. list_ex (\<lambda>cmatch. re_search_anchored cmatch column) CHANNEL_PATTERNS) cols"

definition is_digit :: "char \<Rightarrow> bool" where
  "is_digit c = (let n = (of_char c :: nat) in 48 \<le> n \<and> n \<le> 57)"

definition digits_val :: "string \<Rightarrow> nat" where
  "digits_val ds = foldl (\<lambda>n c. 10 * n + ((of_char c :: nat) - 48)) 0 ds"

text \<open>\<^verbatim>\<open>re.search(r'\d+', s)\<close>: the first run of digits, if there is one.\<close>

definition search_digits :: "string \<Rightarrow> string option" where
  "search_digits s =
     (case dropWhile (\<lambda>c. \<not> is_digit c) s of [] \<Rightarrow> None | r \<Rightarrow> Some (takeWhile is_digit r))"

text \<open>\<^verbatim>\<open>FLOATRE\<close> is \<^verbatim>\<open>[-+]?[0-9]*\.?[0-9]+\<close>. \<open>float_at s\<close> is the number that
  \<^verbatim>\<open>float\<close> reads from the match of \<^verbatim>\<open>FLOATRE\<close> at the start of \<open>s\<close>: an optional
  sign, the longest run of digits, and, when a point and a digit follow, the point and
  the longest run of digits after it; without them the run of digits must not be empty.
  \<open>search_float\<close> is \<^verbatim>\<open>float(re.search(FLOATRE, s).group())\<close>, with \<open>None\<close> when
  nothing is found (the \<^verbatim>\<open>AttributeError\<close> that the source catches).\<close>

definition float_at :: "string \<Rightarrow> rat option" where
  "float_at s =
     (let (sgn, r) = (case s of
                        [] \<Rightarrow> (1, [])
                      | c # r \<Rightarrow> if c = CHR ''-'' then (- 1, r)
                                 else if c = CHR ''+'' then (1, r) else (1, s));
          d1 = takeWhile is_digit r;
          r1 = dropWhile is_digit r;
          d2 = (case r1 of [] \<Rightarrow> [] | c # r2 \<Rightarrow> if c = CHR ''.'' then takeWhile is_digit r2 else [])
      in if d2 \<noteq> [] then
           Some (sgn * (of_nat (digits_val d1) + of_nat (digits_val d2) / 10 ^ length d2))
         else if d1 \<noteq> [] then Some (sgn * of_nat (digits_val d1))
         else None)"

fun search_float :: "string \<Rightarrow> rat option" where
  "search_float [] = None"
| "search_float (c # s) =
     (case float_at (c # s) of Some v \<Rightarrow> Some v | None \<Rightarrow> search_float s)"

text \<open>The loop of \<^verbatim>\<open>_translate_imt\<close> over \<^verbatim>\<open>imtlist\<close>. When it ends without a
  match, \<^verbatim>\<open>newimt\<close> was never assigned and \<^verbatim>\<open>return newimt\<close> raises
  \<^verbatim>\<open>UnboundLocalError\<close>.\<close>

fun find_imt :: "rat \<Rightarrow> string list \<Rightarrow> error + string" where
  "find_imt period [] = Inl UnboundLocalError"
| "find_imt period (imt # imtlist) =
     (if \<not> startswith imt ''SA'' then find_imt period imtlist
      else (case search_float imt of
              None \<Rightarrow> find_imt period imtlist
            | Some imt_period \<Rightarrow>
                if imt_period = period then Inr imt else find_imt period imtlist))"

definition translate_imt :: "string \<Rightarrow> string list \<Rightarrow> error + string" where
  "translate_imt oldimt imtlist =
     (if upper oldimt \<in> set [''PGA'', ''PGV''] then Inr (upper oldimt)
      else (case search_digits oldimt of
              Some m \<Rightarrow> find_imt (of_nat (digits_val m) / 10) imtlist
            | None \<Rightarrow> Inr ''''))"

subsection \<open>Rows and Python values\<close>

text \<open>A row of a frame with its labels, as \<^verbatim>\<open>df.iterrows()\<close> gives it.\<close>

type_synonym row = "((string \<times> string) \<times> cell) list"

definition iterrows :: "dataframe \<Rightarrow> row list" where
  "iterrows df = map (\<lambda>r. zip (columns df) r) (rows df)"

text \<open>What a lookup by label returns: the cell when the label occurs once, a
  \<^verbatim>\<open>Series\<close> of the cells when it occurs more often.\<close>

datatype pyval = Scalar cell | Series "cell list"

text \<open>\<^verbatim>\<open>tmprow[key]\<close> and \<^verbatim>\<open>key in tmprow\<close>, where \<^verbatim>\<open>tmprow\<close> is the row with the
  second level of its labels dropped.\<close>

definition tm_get :: "row \<Rightarrow> string \<Rightarrow> error + pyval" where
  "tm_get r key =
     (case map snd (filter (\<lambda>((t, s), c). t = key) r) of
        [] \<Rightarrow> Inl (KeyError key)
      | [c] \<Rightarrow> Inr (Scalar c)
      | cs \<Rightarrow> Inr (Series cs))"

definition tm_in :: "string \<Rightarrow> row \<Rightarrow> bool" where
  "tm_in key r = (key \<in> set (map (fst \<circ> fst) r))"

text \<open>The Python and library functions whose results are not computed here: \<^verbatim>\<open>str\<close> of
  a value that is not a string, the formats \<^verbatim>\<open>{x:.nf}\<close> and \<^verbatim>\<open>{n:d}\<close>, \<^verbatim>\<open>int\<close> of a
  string, and lxml's tests of a tag name and of an attribute value.\<close>

record pylib =
  py_str :: "pyval \<Rightarrow> string"
  format_f :: "nat \<Rightarrow> npfloat \<Rightarrow> string"
  format_d :: "int \<Rightarrow> string"
  int_of_str :: "string \<Rightarrow> int option"
  xml_tag_ok :: "string \<Rightarrow> bool"
  xml_text_ok :: "string \<Rightarrow> bool"

text \<open>\<^verbatim>\<open>str(v)\<close>, \<^verbatim>\<open>v.strip()\<close>, \<^verbatim>\<open>f"{v:.nf}"\<close> and \<^verbatim>\<open>f"{int(v):d}"\<close>.\<close>

definition str_of :: "pylib \<Rightarrow> pyval \<Rightarrow> string" where
  "str_of lib v = (case v of Scalar (Str s) \<Rightarrow> s | _ \<Rightarrow> py_str lib v)"

definition strip_of :: "pyval \<Rightarrow> error + string" where
  "strip_of v = (case v of Scalar (Str s) \<Rightarrow> Inr (strip s) | _ \<Rightarrow> Inl AttributeError)"

definition fmt_f :: "pylib \<Rightarrow> nat \<Rightarrow> pyval \<Rightarrow> error + string" where
  "fmt_f lib n v =
     (case v of
        Scalar (Num x) \<Rightarrow> Inr (format_f lib n x)
      | Scalar (Str s) \<Rightarrow> Inl ValueError
      | Series cs \<Rightarrow> Inl TypeError)"

definition truncate :: "rat \<Rightarrow> int" where
  "truncate r = (if 0 \<le> r then \<lfloor>r\<rfloor> else \<lceil>r\<rceil>)"

definition fmt_int :: "pylib \<Rightarrow> pyval \<Rightarrow> error + string" where
  "fmt_int lib v =
     (case v of
        Scalar (Num (Fin r)) \<Rightarrow> Inr (format_d lib (truncate r))
      | Scalar (Num NaN) \<Rightarrow> Inl ValueError
      | Scalar (Num _) \<Rightarrow> Inl OverflowError
      | Scalar (Str s) \<Rightarrow>
          (case int_of_str lib s of None \<Rightarrow> Inl ValueError | Some n \<Rightarrow> Inr (format_d lib n))
      | Series cs \<Rightarrow> Inl TypeError)"

text \<open>Lines 273 to 277 (and 433 to 437): the station code of a row.\<close>

definition station_code :: "pylib \<Rightarrow> row \<Rightarrow> error + string" where
  "station_code lib tmprow =
     and_then (tm_get tmprow ''STATION'') (\<lambda>st.
     and_then (tm_get tmprow ''NETID'') (\<lambda>nv.
     and_then (strip_of nv) (\<lambda>netid.
       let stationcode = strip (str_of lib st) in
       Inr (if \<not> startswith stationcode netid then netid @ ''.'' @ stationcode
            else stationcode))))"

text \<open>The chains of \<^verbatim>\<open>if 'KEY' in tmprow: target['name'] = ...\<close>: one entry for each
  statement, with the conversion applied and the value stored when the key is absent (the
  \<^verbatim>\<open>else\<close> branches of \<^verbatim>\<open>LOC\<close> and \<^verbatim>\<open>SERIAL\<close>).\<close>

datatype conv = Strip | FormatF nat | FormatD

definition convert :: "pylib \<Rightarrow> conv \<Rightarrow> pyval \<Rightarrow> error + string" where
  "convert lib cv v =
     (case cv of Strip \<Rightarrow> strip_of v | FormatF n \<Rightarrow> fmt_f lib n v | FormatD \<Rightarrow> fmt_int lib v)"

text \<open>The channels of a frame, lines 257 to 264 (and 409 to 416). \<^verbatim>\<open>_get_channels\<close>
  iterates over a Python set; \<open>order\<close> is the order in which Python iterates over the
  members of a set of strings.\<close>

definition frame_channels :: "(string list \<Rightarrow> string list) \<Rightarrow> dataframe \<Rightarrow> string list" where
  "frame_channels order df =
     (if multi df then get_channels (order (channel_set (levels0 df))) else [])"

text \<open>\<^verbatim>\<open>row[channel]\<close> for a row with two-level labels: the cells under \<^verbatim>\<open>channel\<close>
  with their subheaders; a \<^verbatim>\<open>KeyError\<close> when there is none.\<close>

definition row_channel :: "row \<Rightarrow> string \<Rightarrow> error + (string \<times> cell) list" where
  "row_channel r channel =
     (case map (\<lambda>((t, s), c). (s, c)) (filter (\<lambda>((t, s), c). t = channel) r) of
        [] \<Rightarrow> Inl (KeyError channel)
      | sub \<Rightarrow> Inr sub)"

text \<open>One pass of the loop over \<^verbatim>\<open>pgm\<close> (lines 356 to 362, and 497 to 503): the result
  is \<open>None\<close> when the measurement is skipped (\<^verbatim>\<open>continue\<close>), and the cell otherwise.
  A subheader that occurs twice gives a \<^verbatim>\<open>Series\<close>, whose truth value is a
  \<^verbatim>\<open>ValueError\<close>; \<^verbatim>\<open>np.isnan\<close> of a string is a \<^verbatim>\<open>TypeError\<close>.\<close>

definition pgm_value :: "(string \<times> cell) list \<Rightarrow> string \<Rightarrow> error + npfloat option" where
  "pgm_value sub pgm =
     and_then (translate_imt pgm (map fst sub)) (\<lambda>newpgm.
       case map snd (filter (\<lambda>(s, c). s = newpgm) sub) of
         [] \<Rightarrow> Inr None
       | [Num x] \<Rightarrow> Inr (if np_isnan x then None else Some x)
       | [Str s] \<Rightarrow> Inl TypeError
       | _ \<Rightarrow> Inl ValueError)"

definition PGMS :: "string list" where
  "PGMS = [''pga'', ''pgv'', ''psa03'', ''psa10'', ''psa30'']"

text \<open>A Python dictionary whose order of insertion matters, and lxml's attributes of an
  element: an association list; assigning to a key that is present replaces its value in
  place.\<close>

definition dict_has :: "'k \<Rightarrow> ('k \<times> 'v) list \<Rightarrow> bool" where
  "dict_has k d = (k \<in> set (map fst d))"

definition dict_set :: "'k \<Rightarrow> 'v \<Rightarrow> ('k \<times> 'v) list \<Rightarrow> ('k \<times> 'v) list" where
  "dict_set k v d =
     (if dict_has k d then map (\<lambda>(k', v'). if k' = k then (k', v) else (k', v')) d
      else d @ [(k, v)])"

text \<open>The fields are copied in the order of the source; \<open>ok\<close> is the test that the
  target applies to a stored string (lxml's, for an attribute).\<close>

fun copy_fields ::
  "pylib \<Rightarrow> (string \<Rightarrow> bool) \<Rightarrow> row \<Rightarrow> (string \<times> string \<times> conv \<times> string option) list
     \<Rightarrow> (string \<times> string) list \<Rightarrow> error + (string \<times> string) list" where
  "copy_fields lib ok tmprow [] acc = Inr acc"
| "copy_fields lib ok tmprow ((key, name, cv, dflt) # flds) acc =
     (if tm_in key tmprow then
        and_then (tm_get tmprow key) (\<lambda>v.
        and_then (convert lib cv v) (\<lambda>s.
          if ok s then copy_fields lib ok tmprow flds (dict_set name s acc)
          else Inl ValueError))
      else copy_fields lib ok tmprow flds
             (case dflt of None \<Rightarrow> acc | Some d \<Rightarrow> dict_set name d acc))"

subsection \<open>\<^verbatim>\<open>dataframe_to_json\<close>\<close>

datatype json = JStr string | JInt int | JList "json list" | JObj "(string \<times> json) list"

text \<open>Lines 304 to 342.\<close>

definition JSON_FIELDS :: "(string \<times> string \<times> conv \<times> string option) list" where
  "JSON_FIELDS =
     [(''NAME'', ''name'', Strip, None),
      (''NETID'', ''network'', Strip, None),
      (''DISTANCE'', ''distance'', FormatF 1, None),
      (''INTENSITY'', ''intensity'', FormatF 1, None),
      (''NRESP'', ''nresp'', FormatD, None),
      (''INTENSITY_STDDEV'', ''intensity_stddev'', FormatF 2, None),
      (''SOURCE'', ''source'', Strip, None),
      (''LOC'', ''location'', Strip, Some ''--''),
      (''INSTTYPE'', ''type'', Strip, None),
      (''PROVIDER'', ''provider'', Strip, None),
      (''INSTRUMENT'', ''instrument'', Strip, None),
      (''SERIAL'', ''serial'', Strip, Some ''None''),
      (''PERIOD'', ''period'', Strip, None),
      (''DAMPING'', ''damping'', Strip, None),
      (''SENSITIVITY'', ''sensitivity'', Strip, None),
      (''SOURCE_FORMAT'', ''source_format'', Strip, None),
      (''STRUCTURE'', ''structure'', Strip, None)]"

text \<open>The loop over \<^verbatim>\<open>pgm\<close> of lines 355 to 365; \<open>d\<close> is \<^verbatim>\<open>station['channels']\<close>, each
  key with its list of amplitudes, and \<open>key\<close> is \<^verbatim>\<open>channel.upper()\<close>.\<close>

fun json_pgms ::
  "pylib \<Rightarrow> (string \<times> cell) list \<Rightarrow> string \<Rightarrow> string list \<Rightarrow> (string \<times> json list) list
     \<Rightarrow> error + (string \<times> json list) list" where
  "json_pgms lib sub key [] d = Inr d"
| "json_pgms lib sub key (pgm # pgms) d =
     and_then (pgm_value sub pgm) (\<lambda>v.
       case v of
         None \<Rightarrow> json_pgms lib sub key pgms d
       | Some x \<Rightarrow>
           (case map_of d key of
              None \<Rightarrow> Inl (KeyError key)
            | Some amplitudes \<Rightarrow>
                json_pgms lib sub key pgms
                  (dict_set key
                     (amplitudes @ [JObj [(''name'', JStr pgm), (''flag'', JInt 0),
                                          (''value'', JStr (format_f lib 4 x))]]) d)))"

text \<open>The loop over the channels of lines 350 to 365.\<close>

fun json_channels ::
  "pylib \<Rightarrow> row \<Rightarrow> string list \<Rightarrow> (string \<times> json list) list \<Rightarrow> error + (string \<times> json list) list" where
  "json_channels lib r [] d = Inr d"
| "json_channels lib r (channel # channels) d =
     and_then (row_channel r channel) (\<lambda>sub.
     and_then (json_pgms lib sub (upper channel) PGMS
                 (if \<not> dict_has channel d then dict_set (upper channel) [] d else d)) (\<lambda>d'.
       json_channels lib r channels d'))"

text \<open>Lines 287 to 365: the feature of one row.\<close>

definition json_station :: "pylib \<Rightarrow> string list \<Rightarrow> row \<Rightarrow> string \<Rightarrow> error + json" where
  "json_station lib channels r stationcode =
     and_then (and_then (tm_get r ''LAT'') (fmt_f lib 4)) (\<lambda>lat.
     and_then (and_then (tm_get r ''LON'') (fmt_f lib 4)) (\<lambda>lon.
     and_then (and_then (tm_get r ''ELEV'') (fmt_f lib 1)) (\<lambda>elev.
     and_then (copy_fields lib (\<lambda>s. True) r JSON_FIELDS
                 [(''code'', last (split_on CHR ''.'' stationcode))]) (\<lambda>props.
     and_then (json_channels lib r (sort channels) []) (\<lambda>chans.
       Inr (JObj
         [(''geometry'', JObj [(''type'', JStr ''Point''),
                               (''coordinates'', JList [JStr lat, JStr lon, JStr elev])]),
          (''properties'', JObj (map (\<lambda>(k, v). (k, JStr v)) props)),
          (''channels'',
             JObj (map (\<lambda>(k, amplitudes). (k, JObj [(''amplitudes'', JList amplitudes)]))
                       chans))]))))))"

text \<open>The loop over the rows, lines 267 to 367; the state is \<^verbatim>\<open>features\<close> and
  \<^verbatim>\<open>processed_stations\<close>. Sorting the channels again in every pass gives the list of
  the first pass.\<close>

fun json_rows ::
  "pylib \<Rightarrow> string list \<Rightarrow> row list \<Rightarrow> json list \<times> string list \<Rightarrow> error + json list" where
  "json_rows lib channels [] (features, processed_stations) = Inr features"
| "json_rows lib channels (r # rs) (features, processed_stations) =
     and_then (station_code lib r) (\<lambda>stationcode.
       if stationcode \<in> set processed_stations
       then json_rows lib channels rs (features, processed_stations)
       else and_then (json_station lib channels r stationcode) (\<lambda>station.
              json_rows lib channels rs
                (features @ [station], processed_stations @ [stationcode])))"

text \<open>\<^verbatim>\<open>dataframe_to_json\<close>. \<open>now\<close> is \<^verbatim>\<open>int(time.time())\<close> and \<open>fs\<close> the files, by
  name; \<open>order\<close> is as in \<open>frame_channels\<close>. The result is the exception raised, if any, and the files afterwards. The output
  goes to \<^verbatim>\<open>test.json\<close>, whatever \<^verbatim>\<open>jsonfile\<close> is (line 378).\<close>

definition dataframe_to_json ::
  "pylib \<Rightarrow> (string list \<Rightarrow> string list) \<Rightarrow> int \<Rightarrow> dataframe \<Rightarrow> string \<Rightarrow> (string \<Rightarrow> json option)
     \<Rightarrow> error option \<times> (string \<Rightarrow> json option)" where
  "dataframe_to_json lib order now df jsonfile fs =
     (case json_rows lib (frame_channels order df) (iterrows df) ([], []) of
        Inl e \<Rightarrow> (Some e, fs)
      | Inr features \<Rightarrow>
          (None,
           fs(''test.json'' \<mapsto>
              JObj [(''type'', JStr ''FeatureCollection''),
                    (''software'', JObj [(''name'', JStr ''impactutils''),
                                         (''version'', JStr ''1.0.0'')]),
                    (''process_time'', JInt now),
                    (''features'', JList features)])))"

subsection \<open>\<^verbatim>\<open>dataframe_to_xml\<close>\<close>

datatype xml = Element string "(string \<times> string) list" "xml list"

text \<open>\<^verbatim>\<open>element.attrib[k] = v\<close>: lxml refuses a value that is not XML text with a
  \<^verbatim>\<open>ValueError\<close>.\<close>

definition set_attr ::
  "pylib \<Rightarrow> string \<Rightarrow> string \<Rightarrow> (string \<times> string) list \<Rightarrow> error + (string \<times> string) list" where
  "set_attr lib k v attrs = (if xml_text_ok lib v then Inr (dict_set k v attrs) else Inl ValueError)"

text \<open>Lines 454 to 473.\<close>

definition XML_FIELDS :: "(string \<times> string \<times> conv \<times> string option) list" where
  "XML_FIELDS =
     [(''NAME'', ''name'', Strip, None),
      (''NETID'', ''netid'', Strip, None),
      (''DISTANCE'', ''dist'', FormatF 1, None),
      (''INTENSITY'', ''intensity'', FormatF 1, None),
      (''NRESP'', ''nresp'', FormatD, None),
      (''INTENSITY_STDDEV'', ''intensity_stddev'', FormatF 2, None),
      (''SOURCE'', ''source'', Strip, None),
      (''LOC'', ''loc'', Strip, None),
      (''INSTTYPE'', ''insttype'', Strip, None),
      (''ELEV'', ''elev'', FormatF 1, None)]"

text \<open>The loop over \<^verbatim>\<open>pgm\<close> of lines 496 to 507: the children of a \<^verbatim>\<open>comp\<close>.\<close>

fun xml_pgms :: "pylib \<Rightarrow> (string \<times> cell) list \<Rightarrow> string list \<Rightarrow> xml list \<Rightarrow> error + xml list" where
  "xml_pgms lib sub [] els = Inr els"
| "xml_pgms lib sub (pgm # pgms) els =
     and_then (pgm_value sub pgm) (\<lambda>v.
       case v of
         None \<Rightarrow> xml_pgms lib sub pgms els
       | Some x \<Rightarrow>
           and_then (set_attr lib ''value'' (format_f lib 4 x) [(''flag'', ''0'')]) (\<lambda>attrs.
             xml_pgms lib sub pgms (els @ [Element pgm attrs []])))"

text \<open>Lines 479 to 507: the \<^verbatim>\<open>comp\<close> elements of a row whose frame is grouped by
  channel.\<close>

fun xml_comps :: "pylib \<Rightarrow> row \<Rightarrow> string list \<Rightarrow> xml list \<Rightarrow> error + xml list" where
  "xml_comps lib r [] comps = Inr comps"
| "xml_comps lib r (channel # channels) comps =
     and_then (set_attr lib ''name'' (upper channel) []) (\<lambda>a1.
     and_then (if channel = [] then Inl IndexError
               else Inr (dict_set ''orientation''
                           (if last channel \<in> set ''12EN'' then ''h'' else ''z'') a1)) (\<lambda>a2.
     and_then (row_channel r channel) (\<lambda>sub.
     and_then (xml_pgms lib sub PGMS []) (\<lambda>els.
       xml_comps lib r channels (comps @ [Element ''comp'' a2 els])))))"

text \<open>The second layout, lines 510 to 527, has one row for each station, channel and
  measurement, in a flat frame. \<^verbatim>\<open>df[key]\<close> is the column with that label. The theory
  describes it for a flat frame in which the label occurs once; on a frame with
  two-level labels, or with the label repeated, \<^verbatim>\<open>df[key]\<close> is a frame and the
  comparison with a value selects cells, not rows: that case is left out
  (\<open>Unmodelled\<close>).\<close>

definition unique_column :: "dataframe \<Rightarrow> string \<Rightarrow> error + cell list" where
  "unique_column df key =
     (if multi df then Inl Unmodelled
      else (case filter (\<lambda>(t, s). t = key) (columns df) of
              [] \<Rightarrow> Inl (KeyError key)
            | [l] \<Rightarrow> Inr (map (\<lambda>r. case tm_get r key of Inr (Scalar c) \<Rightarrow> c | _ \<Rightarrow> Num NaN)
                              (iterrows df))
            | _ \<Rightarrow> Inl Unmodelled))"

text \<open>The comparison \<^verbatim>\<open>==\<close> of pandas on two cells: NaN is not equal to NaN.\<close>

definition cell_eq :: "cell \<Rightarrow> cell \<Rightarrow> bool" where
  "cell_eq a b = (a = b \<and> a \<noteq> Num NaN)"

text \<open>\<^verbatim>\<open>df[df[key] == v]\<close>: the rows whose cell in the column \<open>key\<close> equals \<open>v\<close>.\<close>

definition rows_where :: "dataframe \<Rightarrow> string \<Rightarrow> cell \<Rightarrow> error + dataframe" where
  "rows_where df key v =
     and_then (unique_column df key) (\<lambda>col.
       Inr (df\<lparr>index := map fst (filter (\<lambda>(i, c). cell_eq c v) (zip (index df) col)),
               rows := map fst (filter (\<lambda>(r, c). cell_eq c v) (zip (rows df) col))\<rparr>))"

text \<open>\<^verbatim>\<open>Series.unique()\<close>: the values in the order of their first occurrence.\<close>

definition unique :: "'a list \<Rightarrow> 'a list" where
  "unique xs = rev (remdups (rev xs))"

text \<open>Lines 521 to 527: the elements of the rows of one channel. The tag is the cell
  \<^verbatim>\<open>imt\<close>: lxml wants a string that is a tag name.\<close>

fun xml_imt_rows :: "pylib \<Rightarrow> row list \<Rightarrow> xml list \<Rightarrow> error + xml list" where
  "xml_imt_rows lib [] els = Inr els"
| "xml_imt_rows lib (channel_row # rs) els =
     and_then (tm_get channel_row ''imt'') (\<lambda>pgm.
     and_then (tm_get channel_row ''value'') (\<lambda>v.
     and_then (case pgm of
                 Scalar (Str s) \<Rightarrow> if xml_tag_ok lib s then Inr s else Inl ValueError
               | _ \<Rightarrow> Inl TypeError) (\<lambda>tag.
     and_then (fmt_f lib 4 v) (\<lambda>vs.
     and_then (set_attr lib ''value'' vs []) (\<lambda>a1.
     and_then (tm_get channel_row ''flag'') (\<lambda>flag.
     and_then (set_attr lib ''flag'' (str_of lib flag) a1) (\<lambda>a2.
       xml_imt_rows lib rs (els @ [Element tag a2 []]))))))))"

text \<open>Lines 517 to 527: the \<^verbatim>\<open>comp\<close> elements of a station in the second layout.\<close>

fun xml_imt_comps :: "pylib \<Rightarrow> dataframe \<Rightarrow> cell list \<Rightarrow> xml list \<Rightarrow> error + xml list" where
  "xml_imt_comps lib station_rows [] comps = Inr comps"
| "xml_imt_comps lib station_rows (channel # channels) comps =
     and_then (rows_where station_rows ''channel'' channel) (\<lambda>channel_rows.
     and_then (case channel of Str s \<Rightarrow> set_attr lib ''name'' (upper s) []
               | Num x \<Rightarrow> Inl AttributeError) (\<lambda>attrs.
     and_then (xml_imt_rows lib (iterrows channel_rows) []) (\<lambda>els.
       xml_imt_comps lib station_rows channels (comps @ [Element ''comp'' attrs els]))))"

text \<open>Lines 447 to 529: the \<^verbatim>\<open>station\<close> element of one row.\<close>

definition xml_station :: "pylib \<Rightarrow> dataframe \<Rightarrow> string list \<Rightarrow> row \<Rightarrow> string \<Rightarrow> error + xml" where
  "xml_station lib df channels r stationcode =
     and_then (set_attr lib ''code'' stationcode []) (\<lambda>a1.
     and_then (and_then (tm_get r ''LAT'') (fmt_f lib 4)) (\<lambda>lat.
     and_then (set_attr lib ''lat'' lat a1) (\<lambda>a2.
     and_then (and_then (tm_get r ''LON'') (fmt_f lib 4)) (\<lambda>lon.
     and_then (set_attr lib ''lon'' lon a2) (\<lambda>a3.
     and_then (copy_fields lib (xml_text_ok lib) r XML_FIELDS a3) (\<lambda>attrs.
     and_then
       (if \<not> tm_in ''imt'' r then xml_comps lib r (sort channels) []
        else
          and_then (tm_get r ''STATION'') (\<lambda>scode.
            case scode of
              Series cs \<Rightarrow> Inl Unmodelled
            | Scalar c \<Rightarrow>
                and_then (rows_where df ''STATION'' c) (\<lambda>station_rows.
                and_then (unique_column station_rows ''channel'') (\<lambda>col.
                  xml_imt_comps lib station_rows (unique col) [])))) (\<lambda>comps.
       Inr (Element ''station'' attrs comps))))))))"

text \<open>The loop over the rows, lines 427 to 529; the state is the children of
  \<^verbatim>\<open>stationlist\<close> and \<^verbatim>\<open>processed_stations\<close>.\<close>

fun xml_rows ::
  "pylib \<Rightarrow> dataframe \<Rightarrow> string list \<Rightarrow> row list \<Rightarrow> xml list \<times> string list \<Rightarrow> error + xml list" where
  "xml_rows lib df channels [] (stations, processed_stations) = Inr stations"
| "xml_rows lib df channels (r # rs) (stations, processed_stations) =
     and_then (station_code lib r) (\<lambda>stationcode.
       if stationcode \<in> set processed_stations
       then xml_rows lib df channels rs (stations, processed_stations)
       else and_then (xml_station lib df channels r stationcode) (\<lambda>station.
              xml_rows lib df channels rs
                (stations @ [station], processed_stations @ [stationcode])))"

text \<open>The document: the root with its two version attributes and the \<^verbatim>\<open>stationlist\<close>
  with the attribute \<^verbatim>\<open>created\<close> and, when a reference is given, \<^verbatim>\<open>reference\<close>.\<close>

definition xml_tree ::
  "pylib \<Rightarrow> (string list \<Rightarrow> string list) \<Rightarrow> int \<Rightarrow> string option \<Rightarrow> dataframe \<Rightarrow> error + xml" where
  "xml_tree lib order create_time reference df =
     and_then (case reference of
                 None \<Rightarrow> Inr [(''created'', format_d lib create_time)]
               | Some ref \<Rightarrow> set_attr lib ''reference'' ref [(''created'', format_d lib create_time)])
       (\<lambda>attrs.
     and_then (xml_rows lib df (frame_channels order df) (iterrows df) ([], [])) (\<lambda>stations.
       Inr (Element ''shakemap-data'' [(''code_version'', ''3.5''), (''map_version'', ''3'')]
              [Element ''stationlist'' attrs stations])))"

text \<open>\<^verbatim>\<open>dataframe_to_xml\<close>. \<open>create_time\<close> is \<^verbatim>\<open>int(time.time())\<close> and \<open>fs\<close> the
  files, by name; the file holds the tree that \<^verbatim>\<open>tree.write\<close> prints.\<close>

definition dataframe_to_xml ::
  "pylib \<Rightarrow> (string list \<Rightarrow> string list) \<Rightarrow> int \<Rightarrow> dataframe \<Rightarrow> string \<Rightarrow> string option \<Rightarrow> (string \<Rightarrow> xml option)
     \<Rightarrow> error option \<times> (string \<Rightarrow> xml option)" where
  "dataframe_to_xml lib order create_time df xmlfile reference fs =
     (case xml_tree lib order create_time reference df of
        Inl e \<Rightarrow> (Some e, fs)
      | Inr tree \<Rightarrow> (None, fs(xmlfile \<mapsto> tree)))"

subsection \<open>Auxiliary definitions for the proofs about \<^verbatim>\<open>read_excel\<close>\<close>

text \<open>A group accepts the channels: more than one of its patterns matches, or exactly one
  does and there is one channel only.\<close>

definition group_ok :: "string list \<Rightarrow> atom list list \<Rightarrow> bool" where
  "group_ok channels g = (1 < num_channels g channels \<or> (num_channels g channels = 1 \<and> length channels = 1))"

text \<open>Some channel has a column of \<^verbatim>\<open>PGM_COLS\<close>.\<close>

definition has_pgm :: "dataframe \<Rightarrow> string list \<Rightarrow> bool" where
  "has_pgm df channels = list_ex (\<lambda>ch. list_ex (in_channel_df df ch) PGM_COLS) channels"

text \<open>The table has a recognized PGM column under a channel: the frame has two header
  levels, and one of its columns has a top header of the table that is neither a required
  nor an optional column, over one of the subheaders \<^verbatim>\<open>PGA\<close>, \<^verbatim>\<open>PGV\<close>,
  \<^verbatim>\<open>SA(0.3)\<close>, \<^verbatim>\<open>SA(1.0)\<close>, \<^verbatim>\<open>SA(3.0)\<close>. This is stated on the columns of the
  table, not through the tests the code makes.\<close>

definition pgm_column_under_channel :: "dataframe \<Rightarrow> string list \<Rightarrow> bool" where
  "pgm_column_under_channel df top_headers =
     (multi df \<and>
      (\<exists>(t, s) \<in> set (columns df).
          t \<in> set top_headers \<and> t \<notin> set REQUIRED_COLUMNS \<and> t \<notin> set OPTIONAL
          \<and> s \<in> {''PGA'', ''PGV'', ''SA(0.3)'', ''SA(1.0)'', ''SA(3.0)''}))"

subsection \<open>Auxiliary definitions for the proofs about the writers\<close>

text \<open>The document with the value of \<^verbatim>\<open>created\<close> on the \<^verbatim>\<open>stationlist\<close> element
  replaced by \<open>c\<close>.\<close>

fun set_created :: "string \<Rightarrow> xml \<Rightarrow> xml" where
  "set_created c (Element tag attrs children) =
     Element tag attrs
       (map (\<lambda>child. case child of
               Element t a k \<Rightarrow>
                 if t = ''stationlist''
                 then Element t (map (\<lambda>(n, v). if n = ''created'' then (n, c) else (n, v)) a) k
                 else child)
            children)"

text \<open>\<open>ys\<close> lists the members of the set \<open>xs\<close>, each once.\<close>

definition iteration_of :: "string list \<Rightarrow> string list \<Rightarrow> bool" where
  "iteration_of xs ys = (set ys = set xs \<and> distinct ys)"

text \<open>Stand-ins for the Python functions of \<open>pylib\<close>, for closed examples.\<close>

definition lib0 :: pylib where
  "lib0 = \<lparr>py_str = (\<lambda>v. ''?''), format_f = (\<lambda>n x. ''0.0''), format_d = (\<lambda>n. ''0''),
           int_of_str = (\<lambda>s. None), xml_tag_ok = (\<lambda>s. True), xml_text_ok = (\<lambda>s. True)\<rparr>"

text \<open>Example frames: one station with the channel \<open>HHE\<close>, whose columns are
  \<^verbatim>\<open>PGA\<close> and \<^verbatim>\<open>PGV\<close>; and one station without elevation.\<close>

definition pga_pgv_row :: row where
  "pga_pgv_row =
     [((''STATION'', ''''), Str ''ABC''), ((''LAT'', ''''), Num (Fin 34)),
      ((''LON'', ''''), Num (Fin (-118))), ((''NETID'', ''''), Str ''CI''),
      ((''ELEV'', ''''), Num (Fin 10)), ((''HHE'', ''PGA''), Num (Fin 1)),
      ((''HHE'', ''PGV''), Num (Fin 2))]"

definition pga_pgv_frame :: dataframe where
  "pga_pgv_frame = \<lparr>multi = True,
      columns = [(''STATION'', ''''), (''LAT'', ''''), (''LON'', ''''), (''NETID'', ''''),
                 (''ELEV'', ''''), (''HHE'', ''PGA''), (''HHE'', ''PGV'')],
      index = [Num (Fin 0)],
      rows = [[Str ''ABC'', Num (Fin 34), Num (Fin (-118)), Str ''CI'', Num (Fin 10),
               Num (Fin 1), Num (Fin 2)]]\<rparr>"

definition no_elev_frame :: dataframe where
  "no_elev_frame = \<lparr>multi = True,
      columns = [(''STATION'', ''''), (''LAT'', ''''), (''LON'', ''''), (''NETID'', ''''),
                 (''HHE'', ''PGA'')],
      index = [Num (Fin 0)],
      rows = [[Str ''ABC'', Num (Fin 34), Num (Fin (-118)), Str ''CI'', Num (Fin 1)]]\<rparr>"

text \<open>One station with the channels \<open>HHN\<close> and \<open>HHE\<close>, each with the three
  spectral columns.\<close>

definition two_channel_frame :: dataframe where
  "two_channel_frame = \<lparr>multi = True,
      columns = [(''STATION'', ''''), (''LAT'', ''''), (''LON'', ''''), (''NETID'', ''''),
                 (''HHN'', ''SA(0.3)''), (''HHN'', ''SA(1.0)''), (''HHN'', ''SA(3.0)''),
                 (''HHE'', ''SA(0.3)''), (''HHE'', ''SA(1.0)''), (''HHE'', ''SA(3.0)'')],
      index = [Num (Fin 0)],
      rows = [[Str ''ABC'', Num (Fin 34), Num (Fin (-118)), Str ''CI'',
               Num (Fin 1), Num (Fin 2), Num NaN, Num (Fin 4), Num (Fin 5), Num (Fin 6)]]\<rparr>"

section \<open>Theorems about the colour palette\<close>

lemma and_then_Inl [simp]: "and_then (Inl e) f = Inl e"
  by (simp add: and_then_def)

lemma and_then_Inr [simp]: "and_then (Inr x) f = f x"
  by (simp add: and_then_def)

subsection \<open>NumPy arithmetic without wrapping\<close>



















subsection \<open>The table that the constructor builds\<close>




lemma cdict_loop_error: "cdict_loop x c1 c0 cd = Inl e \<Longrightarrow> e = IndexError"
  by (induction x c1 c0 cd rule: cdict_loop.induct) simp_all
















text \<open>For channels within 0..255 the scaling is the division by 255.\<close>

lemma scaled_in_range:
  assumes "0 \<le> r" "r \<le> 255" "0 \<le> g" "g \<le> 255" "0 \<le> b" "b \<le> 255"
  shows "scaled (r, g, b) = [r / 255, g / 255, b / 255, 1]"
  using assms by (simp add: scaled_def clip_def min_def max_def)



subsection \<open>Sorted arrays within the range of \<^verbatim>\<open>int64\<close>\<close>




subsection \<open>Normalisation with NumPy bounds\<close>







text \<open>Claim C2. The claim is that the constructor rejects sequences that are not all of
  the same length, for instance \<open>len(z0) = 3\<close> with \<open>len(rgb0) = 4\<close>. The chained
  comparison of line 70 raises only when all three neighbouring pairs of lengths differ:
  with lengths 3, 3, 4, 4 and a \<^verbatim>\<open>nan_color\<close> that the colormap accepts, the constructor
  raises nothing and returns a palette.\<close>

theorem init_accepts_unequal_lengths:
  "\<not> isl (ColorPalette_init ''p'' (IntArr [0, 1, 2]) (IntArr [1, 2, 3])
            [(0, 0, 0), (1, 1, 1), (2, 2, 2), (3, 3, 3)]
            [(0, 0, 0), (1, 1, 1), (2, 2, 2), (3, 3, 3)] (Some [0, 0, 0, 0]))"
  by code_simp

text \<open>The constructor raises its length error exactly when the three neighbouring pairs
  of lengths all differ.\<close>

lemma lengths_differ_iff:
  "ColorPalette_init name z0 z1 rgb0 rgb1 nan = Inl LengthsNotIdentical \<longleftrightarrow>
     length (elems z0) \<noteq> length (elems z1) \<and> length (elems z1) \<noteq> length rgb0
     \<and> length rgb0 \<noteq> length rgb1"
proof -
  have "amin z0 \<noteq> Inl LengthsNotIdentical" by (simp add: amin_def split: list.splits)
  moreover have "amax z1 \<noteq> Inl LengthsNotIdentical" by (simp add: amax_def split: list.splits)
  moreover have "to_rgba nan \<noteq> Inl LengthsNotIdentical"
    by (simp add: to_rgba_def split: option.splits)
  ultimately show ?thesis
    by (auto simp: ColorPalette_init_def lengths_differ_def Let_def
        split: sum.splits dest: cdict_loop_error)
qed

text \<open>With the default \<^verbatim>\<open>nan_color=None\<close> the constructor raises the
  \<^verbatim>\<open>ValueError\<close> of \<^verbatim>\<open>set_bad\<close>, unless an earlier line raised.\<close>

lemma init_without_nan_color: "isl (ColorPalette_init name z0 z1 rgb0 rgb1 None)"
  by (simp add: ColorPalette_init_def Let_def to_rgba_def split: sum.splits)

subsection \<open>A degenerate domain\<close>










subsection \<open>Palette files and the setters\<close>

text \<open>No line of a palette file changes the name: the loop returns the name it started
  with.\<close>

lemma directive_name: "directive int_of line (nan, name) = Inr (nan', name') \<Longrightarrow> name' = name"
  by (auto simp: directive_def split: if_splits list.splits sum.splits)

lemma directives_name:
  "directives int_of ls (nan, name) = Inr (nan', name') \<Longrightarrow> name' = name"
proof (induction ls arbitrary: nan)
  case Nil
  then show ?case by simp
next
  case (Cons l ls)
  then show ?case
    by (auto split: sum.splits dest: directive_name)
qed

lemma init_generic:
  "map_sum id (cm_name \<circ> p_cmap)
     (ColorPalette_init ''generic'' (IntArr [0]) (IntArr [1]) [(0, 0, 0)] [(85, 85, 85)]
        (Some [0, 0, 0, 0])) = Inr ''generic''"
  by code_simp

text \<open>Claim C4. The claim is that a \<^verbatim>\<open>#$name: <str>\<close> line sets the palette's name. On
  the file of the docstring with the directive \<^verbatim>\<open>#$name: test\<close>, \<^verbatim>\<open>fromFile\<close>
  returns a palette named \<^verbatim>\<open>generic\<close>, whatever \<^verbatim>\<open>int\<close> does.\<close>

theorem fromFile_name_directive_ignored:
  "map_sum id (cm_name \<circ> p_cmap)
     (fromFile int_of
        [''#$name: test\<newline>'', ''Z0 R0 G0 B0 Z1 R1 G1 B1\<newline>'', ''0 0 0 0 1 85 85 85\<newline>'']
        \<lparr>Z0 = IntArr [0], R0 = [0], G0 = [0], B0 = [0],
         Z1 = IntArr [1], R1 = [85], G1 = [85], B1 = [85]\<rparr>)
   = Inr ''generic''"
  by (simp add: fromFile_def directive_def startswith_def zip3_def init_generic)

text \<open>Claim C5. Setting \<^verbatim>\<open>vmin\<close> or \<^verbatim>\<open>vmax\<close> changes that bound only:
  \<^verbatim>\<open>_cdict\<close>, the colormap built from it, the other bound and \<^verbatim>\<open>nan_color\<close> are
  unchanged, and \<^verbatim>\<open>getDataColor\<close> calls the same colormap on the value normalised with
  the new bound.\<close>

theorem setters_leave_table:
  "p_cdict (vmin_set v p) = p_cdict p \<and> p_cmap (vmin_set v p) = p_cmap p
   \<and> p_vmax (vmin_set v p) = p_vmax p \<and> nan_color (vmin_set v p) = nan_color p
   \<and> p_vmin (vmin_set v p) = v
   \<and> p_cdict (vmax_set v p) = p_cdict p \<and> p_cmap (vmax_set v p) = p_cmap p
   \<and> p_vmin (vmax_set v p) = p_vmin p \<and> nan_color (vmax_set v p) = nan_color p
   \<and> p_vmax (vmax_set v p) = v
   \<and> getDataColor call (vmin_set v p) x =
       and_then (and_then (num_sub x v) (\<lambda>a. and_then (num_sub (p_vmax p) v) (num_div a)))
         (\<lambda>t. call (p_cmap p) (to_float t))
   \<and> getDataColor call (vmax_set v p) x =
       and_then (and_then (num_sub x (p_vmin p)) (\<lambda>a. and_then (num_sub v (p_vmin p)) (num_div a)))
         (\<lambda>t. call (p_cmap p) (to_float t))"
  by (simp add: vmin_set_def vmax_set_def getDataColor_def normvalue_def)

section \<open>Theorems about \<^verbatim>\<open>read_excel\<close>\<close>

lemma groups_valid_CHANNEL_GROUPS:
  "groups_valid CHANNEL_GROUPS chs = Inr (list_ex (group_ok chs) CHANNEL_GROUPS)"
  unfolding CHANNEL_GROUPS_def
  by (simp add: Let_def group_ok_def num_channels_def)

lemma map_err_error: "map_err f xs = Inl e \<Longrightarrow> \<exists>x \<in> set xs. f x = Inl e"
  by (induction xs) (auto split: sum.splits)

lemma coerce_cell_error: "coerce_cell float_of c = Inl e \<Longrightarrow> e = ValueError"
  by (auto simp: coerce_cell_def split: cell.splits if_splits option.splits)

lemma coerce_column_error: "coerce_column float_of ch col df = Inl e \<Longrightarrow> e = ValueError"
  by (auto simp: coerce_column_def split: sum.splits if_splits
      dest!: map_err_error dest: coerce_cell_error)

lemma coerce_column_frame:
  "coerce_column float_of ch col df = Inr df' \<Longrightarrow> columns df' = columns df \<and> multi df' = multi df"
  by (auto simp: coerce_column_def split: sum.splits)

lemma in_channel_df_cong:
  "columns df' = columns df \<Longrightarrow> multi df' = multi df \<Longrightarrow> in_channel_df df' = in_channel_df df"
  by (simp add: in_channel_df_def fun_eq_iff)

lemma pgm_loop_error: "pgm_loop float_of ch cols st = Inl e \<Longrightarrow> e = ValueError"
  by (induction float_of ch cols st rule: pgm_loop.induct)
     (auto split: if_splits sum.splits dest: coerce_column_error)

lemma pgm_loop_found:
  "pgm_loop float_of ch cols (found, df) = Inr (found', df') \<Longrightarrow>
     columns df' = columns df \<and> multi df' = multi df
     \<and> found' = (found \<or> list_ex (in_channel_df df ch) cols)"
proof (induction float_of ch cols "(found, df)" arbitrary: found df rule: pgm_loop.induct)
  case (1 float_of channel)
  then show ?case by simp
next
  case (2 float_of channel column cols found df)
  show ?case
  proof (cases "in_channel_df df channel column")
    case True
    then obtain d where d: "coerce_column float_of channel column df = Inr d"
      and r: "pgm_loop float_of channel cols (True, d) = Inr (found', df')"
      using "2.prems" by (auto split: sum.splits)
    from coerce_column_frame [OF d] have f: "columns d = columns df" "multi d = multi df" by auto
    from "2.hyps"(1) [OF True d r] f True in_channel_df_cong [OF f] show ?thesis by simp
  next
    case False
    with "2.prems" have r: "pgm_loop float_of channel cols (found, df) = Inr (found', df')" by simp
    from "2.hyps"(2) [OF False r] False show ?thesis by simp
  qed
qed

lemma channel_loop_error: "channel_loop float_of chs st = Inl e \<Longrightarrow> e = ValueError"
  by (induction float_of chs st rule: channel_loop.induct)
     (auto split: sum.splits dest: pgm_loop_error)

lemma channel_loop_found:
  "channel_loop float_of chs (found, df) = Inr (found', df') \<Longrightarrow>
     columns df' = columns df \<and> multi df' = multi df \<and> found' = (found \<or> has_pgm df chs)"
proof (induction chs arbitrary: found df)
  case Nil
  then show ?case by (simp add: has_pgm_def)
next
  case (Cons ch chs)
  then obtain f d where p: "pgm_loop float_of ch PGM_COLS (found, df) = Inr (f, d)"
    and r: "channel_loop float_of chs (f, d) = Inr (found', df')"
    by (auto split: sum.splits)
  from pgm_loop_found [OF p] have q: "columns d = columns df" "multi d = multi df"
    "f = (found \<or> list_ex (in_channel_df df ch) PGM_COLS)" by auto
  from Cons.IH [OF r] q in_channel_df_cong [OF q(1,2)] show ?case
    by (auto simp: has_pgm_def)
qed

lemma channel_loop_none:
  "\<not> has_pgm df chs \<Longrightarrow> channel_loop float_of chs (found, df) = Inr (found, df)"
proof (induction chs)
  case Nil
  then show ?case by simp
next
  case (Cons ch chs)
  then have "pgm_loop float_of ch PGM_COLS (found, df) = Inr (found, df)"
    by (simp add: has_pgm_def PGM_COLS_def)
  with Cons show ?case by (simp add: has_pgm_def)
qed

text \<open>Claim C6, as amended. For a frame with the required columns, the channel check
  accepts an empty channel set; a channel set that is not empty is accepted exactly when
  some group of \<^verbatim>\<open>CHANNEL_GROUPS\<close> has more than one matching pattern, or has exactly
  one matching pattern while the table has a single channel. \<^verbatim>\<open>read_excel\<close> fails with
  the invalid-channel-grouping error exactly when the channel set is not empty and no group
  accepts it; in particular when it is not empty and no pattern of any group matches.
  \<open>{HHE, HHN, HHZ}\<close> is accepted and \<open>{HHE, XX9}\<close> is rejected.\<close>

theorem channel_grouping:
  assumes req: "list_all (\<lambda>c. c \<in> set top_headers) REQUIRED_COLUMNS"
  shows "(let chs = channel_set top_headers in
      channels_valid chs = Inr (chs = [] \<or> list_ex (group_ok chs) CHANNEL_GROUPS)
    \<and> (check_frame float_of df top_headers = Inl (InvalidChannelGrouping (sort chs))
         \<longleftrightarrow> chs \<noteq> [] \<and> \<not> list_ex (group_ok chs) CHANNEL_GROUPS)
    \<and> (chs \<noteq> [] \<and> list_all (\<lambda>g. num_channels g chs = 0) CHANNEL_GROUPS
         \<longrightarrow> check_frame float_of df top_headers = Inl (InvalidChannelGrouping (sort chs))))
    \<and> channels_valid [''HHE'', ''HHN'', ''HHZ''] = Inr True
    \<and> channels_valid [''HHE'', ''XX9''] = Inr False"
proof -
  let ?chs = "channel_set top_headers"
  let ?ok = "list_ex (group_ok ?chs) CHANNEL_GROUPS"
  have v: "channels_valid ?chs = Inr (?chs = [] \<or> ?ok)"
    by (simp add: channels_valid_def groups_valid_CHANNEL_GROUPS)
  have st: "''STATION'' \<in> set top_headers"
    using req by (simp add: REQUIRED_COLUMNS_def)
  have bad: "check_frame float_of df top_headers = Inl (InvalidChannelGrouping (sort ?chs))"
    if "?chs \<noteq> []" "\<not> ?ok"
    using that st req v by (simp add: check_frame_def Let_def)
  have good: "check_frame float_of df top_headers \<noteq> Inl (InvalidChannelGrouping cs)"
    if "?chs = [] \<or> ?ok" for cs
    using that st req v
    by (auto simp: check_frame_def Let_def split: sum.splits dest: channel_loop_error)
  have iff: "check_frame float_of df top_headers = Inl (InvalidChannelGrouping (sort ?chs))
      \<longleftrightarrow> ?chs \<noteq> [] \<and> \<not> ?ok"
    using bad good by blast
  have none: "\<not> ?ok" if "list_all (\<lambda>g. num_channels g ?chs = 0) CHANNEL_GROUPS"
    using that by (simp add: CHANNEL_GROUPS_def group_ok_def)
  have ex1: "channels_valid [''HHE'', ''HHN'', ''HHZ''] = Inr True"
    by (simp add: channels_valid_def CHANNEL_GROUPS_def num_channels_def any_match_def
        re_match_def Let_def)
  have ex2: "channels_valid [''HHE'', ''XX9''] = Inr False"
    by (simp add: channels_valid_def CHANNEL_GROUPS_def num_channels_def any_match_def
        re_match_def Let_def)
  show ?thesis
    unfolding Let_def using v iff none bad ex1 ex2 by blast
qed

text \<open>The theorem on a table with the required columns and the channels
  \<open>{HHE, XX9}\<close>: it is rejected.\<close>

theorem channel_grouping_witness:
  "check_frame (\<lambda>s. None)
     \<lparr>multi = True,
      columns = [(''STATION'', ''''), (''LAT'', ''''), (''LON'', ''''), (''NETID'', ''''),
                 (''HHE'', ''PGA''), (''XX9'', ''PGA'')],
      index = [Num (Fin 0)],
      rows = [[Str ''ABC'', Num (Fin 34), Num (Fin (-118)), Str ''CI'', Num (Fin 1), Num (Fin 2)]]\<rparr>
     [''HHE'', ''LAT'', ''LON'', ''NETID'', ''STATION'', ''XX9'']
   = Inl (InvalidChannelGrouping [''HHE'', ''XX9''])"
  using channel_grouping [of "[''HHE'', ''LAT'', ''LON'', ''NETID'', ''STATION'', ''XX9'']" "\<lambda>s. None"
      "\<lparr>multi = True,
      columns = [(''STATION'', ''''), (''LAT'', ''''), (''LON'', ''''), (''NETID'', ''''),
                 (''HHE'', ''PGA''), (''XX9'', ''PGA'')],
      index = [Num (Fin 0)],
      rows = [[Str ''ABC'', Num (Fin 34), Num (Fin (-118)), Str ''CI'', Num (Fin 1), Num (Fin 2)]]\<rparr>"]
  by (simp add: REQUIRED_COLUMNS_def OPTIONAL_def channel_set_def py_set_def Let_def
      CHANNEL_GROUPS_def group_ok_def num_channels_def any_match_def re_match_def)

text \<open>Claim C6 as stated fails on a table with the required columns and \<^verbatim>\<open>INTENSITY\<close>
  only: its channel set is empty, so no pattern of any group matches it, and the table is
  accepted.\<close>

theorem channel_grouping_counterexample:
  "channel_set [''STATION'', ''LAT'', ''LON'', ''NETID'', ''INTENSITY''] = []
   \<and> list_all (\<lambda>g. num_channels g [] = 0) CHANNEL_GROUPS
   \<and> check_frame (\<lambda>s. None)
        \<lparr>multi = False,
         columns = [(''STATION'', ''''), (''LAT'', ''''), (''LON'', ''''), (''NETID'', ''''),
                    (''INTENSITY'', '''')],
         index = [Num (Fin 0)],
         rows = [[Str ''ABC'', Num (Fin 34), Num (Fin (-118)), Str ''CI'', Num (Fin 5)]]\<rparr>
        [''STATION'', ''LAT'', ''LON'', ''NETID'', ''INTENSITY'']
     = Inr \<lparr>multi = False,
         columns = [(''STATION'', ''''), (''LAT'', ''''), (''LON'', ''''), (''NETID'', ''''),
                    (''INTENSITY'', '''')],
         index = [Num (Fin 0)],
         rows = [[Str ''ABC'', Num (Fin 34), Num (Fin (-118)), Str ''CI'', Num (Fin 5)]]\<rparr>"
  by (simp add: REQUIRED_COLUMNS_def OPTIONAL_def channel_set_def py_set_def Let_def
      CHANNEL_GROUPS_def num_channels_def any_match_def check_frame_def channels_valid_def)

lemma set_channel_set:
  "set (channel_set top_headers) =
     {h \<in> set top_headers. h \<notin> set REQUIRED_COLUMNS \<and> h \<notin> set OPTIONAL}"
  by (auto simp: channel_set_def py_set_def)

lemma has_pgm_columns:
  "has_pgm df (channel_set top_headers) \<longleftrightarrow> pgm_column_under_channel df top_headers"
  unfolding has_pgm_def list_ex_iff in_channel_df_def set_channel_set
    pgm_column_under_channel_def PGM_COLS_def
  by auto

lemma map_err_total:
  "(\<And>x. x \<in> set xs \<Longrightarrow> \<exists>y. f x = Inr y) \<Longrightarrow> \<exists>ys. map_err f xs = Inr ys"
proof (induction xs)
  case Nil
  show ?case by simp
next
  case (Cons x xs)
  obtain y where y: "f x = Inr y" using Cons.prems [of x] by auto
  obtain ys where ys: "map_err f xs = Inr ys" using Cons by auto
  show ?case using y ys by simp
qed

lemma coerce_cell_total:
  assumes "\<forall>s. float_of s \<noteq> None"
  shows "\<exists>c'. coerce_cell float_of c = Inr c'"
proof (cases c)
  case (Str s)
  have "float_of s \<noteq> None" using assms by (rule allE)
  then obtain x where "float_of s = Some x" by (cases "float_of s") auto
  then show ?thesis using Str by (simp add: coerce_cell_def)
next
  case (Num x)
  then show ?thesis by (simp add: coerce_cell_def)
qed

lemma coerce_column_total:
  assumes "\<forall>s. float_of s \<noteq> None"
  shows "\<exists>df'. coerce_column float_of ch col df = Inr df'"
proof -
  let ?g = "\<lambda>(l, c). if l = (ch, col) then coerce_cell float_of c else Inr c"
  have cell: "\<exists>y. ?g x = Inr y" for x
    using coerce_cell_total [OF assms, of "snd x"] by (cases x) auto
  have row: "\<exists>y. map_err ?g (zip (columns df) r) = Inr y" for r
    by (rule map_err_total) (rule cell)
  have "\<exists>rs. map_err (\<lambda>r. map_err ?g (zip (columns df) r)) (rows df) = Inr rs"
    by (rule map_err_total) (rule row)
  then show ?thesis by (auto simp: coerce_column_def)
qed

lemma pgm_loop_total:
  assumes "\<forall>s. float_of s \<noteq> None"
  shows "\<exists>st'. pgm_loop float_of ch cols st = Inr st'"
proof (induction cols arbitrary: st)
  case Nil
  show ?case by simp
next
  case (Cons col cols)
  obtain found df where st: "st = (found, df)" by (cases st)
  obtain d where d: "coerce_column float_of ch col df = Inr d"
    using coerce_column_total [OF assms] by blast
  show ?case using Cons [of "(True, d)"] Cons [of "(found, df)"] d st by simp
qed

lemma channel_loop_total:
  assumes "\<forall>s. float_of s \<noteq> None"
  shows "\<exists>st'. channel_loop float_of chs st = Inr st'"
proof (induction chs arbitrary: st)
  case Nil
  show ?case by simp
next
  case (Cons ch chs)
  obtain st1 where "pgm_loop float_of ch PGM_COLS st = Inr st1"
    using pgm_loop_total [OF assms] by blast
  then show ?case using Cons [of st1] by simp
qed

text \<open>Claim C7, as amended. For a table with the required columns and a valid channel
  grouping, \<^verbatim>\<open>read_excel\<close> fails with the no-measurement-data error if and only if the
  table has no top header \<^verbatim>\<open>INTENSITY\<close> and no recognized PGM column under any
  channel. With a measurement column present the check passes: the read returns the
  frame, or fails earlier with the \<^verbatim>\<open>ValueError\<close> of the conversion of a measurement
  cell to a float, and it returns the frame whenever that conversion accepts every
  string.\<close>

theorem no_measurement_data_iff:
  assumes req: "list_all (\<lambda>c. c \<in> set top_headers) REQUIRED_COLUMNS"
    and valid: "channels_valid (channel_set top_headers) = Inr True"
  shows "(check_frame float_of df top_headers = Inl NoMeasurementData
            \<longleftrightarrow> ''INTENSITY'' \<notin> set top_headers \<and> \<not> pgm_column_under_channel df top_headers)
       \<and> (''INTENSITY'' \<in> set top_headers \<or> pgm_column_under_channel df top_headers \<longrightarrow>
            (\<exists>df'. check_frame float_of df top_headers = Inr df' \<and> columns df' = columns df)
            \<or> check_frame float_of df top_headers = Inl ValueError)
       \<and> ((''INTENSITY'' \<in> set top_headers \<or> pgm_column_under_channel df top_headers)
            \<and> (\<forall>s. float_of s \<noteq> None) \<longrightarrow>
            (\<exists>df'. check_frame float_of df top_headers = Inr df' \<and> columns df' = columns df))"
proof -
  have st: "''STATION'' \<in> set top_headers"
    using req by (simp add: REQUIRED_COLUMNS_def)
  let ?chs = "channel_set top_headers"
  let ?i = "''INTENSITY'' \<in> set top_headers"
  let ?m = "pgm_column_under_channel df top_headers"
  have cf: "check_frame float_of df top_headers =
      (case channel_loop float_of ?chs (?i, df) of Inl e \<Rightarrow> Inl e
       | Inr (found, df') \<Rightarrow> if \<not> found then Inl NoMeasurementData else Inr df')"
    using st req valid by (simp add: check_frame_def Let_def)
  have res: "(check_frame float_of df top_headers = Inl NoMeasurementData \<longleftrightarrow> \<not> ?i \<and> \<not> ?m)
      \<and> (?i \<or> ?m \<longrightarrow>
            (\<exists>df'. check_frame float_of df top_headers = Inr df' \<and> columns df' = columns df)
            \<or> check_frame float_of df top_headers = Inl ValueError)"
  proof (cases "channel_loop float_of ?chs (?i, df)")
    case (Inl e)
    then have "e = ValueError" by (rule channel_loop_error)
    moreover have "has_pgm df ?chs"
      using Inl channel_loop_none [of df ?chs float_of ?i] by auto
    ultimately show ?thesis using cf Inl by (simp add: has_pgm_columns)
  next
    case (Inr r)
    obtain f d where r: "r = (f, d)" by (cases r)
    from channel_loop_found [OF Inr [unfolded r]]
    have "f = (?i \<or> ?m)" "columns d = columns df" by (simp_all add: has_pgm_columns)
    then show ?thesis using cf Inr r by auto
  qed
  have tot: "\<exists>df'. check_frame float_of df top_headers = Inr df' \<and> columns df' = columns df"
    if m: "?i \<or> ?m" and fl: "\<forall>s. float_of s \<noteq> None"
  proof -
    obtain r where "channel_loop float_of ?chs (?i, df) = Inr r"
      using channel_loop_total [OF fl] by blast
    then have "check_frame float_of df top_headers \<noteq> Inl ValueError"
      using cf by (auto split: prod.splits if_splits)
    then show ?thesis using res m by blast
  qed
  show ?thesis using res tot by blast
qed

text \<open>The theorem on two tables with the required columns and the single channel
  \<open>HHE\<close>: with the column \<^verbatim>\<open>COMMENT\<close> only under it the read fails with the
  no-measurement-data error, and with the column \<^verbatim>\<open>PGA\<close> under it the read returns
  the frame.\<close>

theorem no_measurement_data_iff_witness:
  "check_frame (\<lambda>s. Some (Fin 0))
     \<lparr>multi = True,
      columns = [(''STATION'', ''''), (''LAT'', ''''), (''LON'', ''''), (''NETID'', ''''),
                 (''HHE'', ''COMMENT'')],
      index = [Num (Fin 0)],
      rows = [[Str ''ABC'', Num (Fin 34), Num (Fin (-118)), Str ''CI'', Str ''x'']]\<rparr>
     [''HHE'', ''LAT'', ''LON'', ''NETID'', ''STATION'']
   = Inl NoMeasurementData
   \<and> (\<exists>df'. check_frame (\<lambda>s. Some (Fin 0))
          \<lparr>multi = True,
           columns = [(''STATION'', ''''), (''LAT'', ''''), (''LON'', ''''), (''NETID'', ''''),
                      (''HHE'', ''PGA'')],
           index = [Num (Fin 0)],
           rows = [[Str ''ABC'', Num (Fin 34), Num (Fin (-118)), Str ''CI'', Num (Fin 1)]]\<rparr>
          [''HHE'', ''LAT'', ''LON'', ''NETID'', ''STATION'']
        = Inr df'
        \<and> columns df' = [(''STATION'', ''''), (''LAT'', ''''), (''LON'', ''''), (''NETID'', ''''),
                      (''HHE'', ''PGA'')])"
  using no_measurement_data_iff [of "[''HHE'', ''LAT'', ''LON'', ''NETID'', ''STATION'']"
      "\<lambda>s. Some (Fin 0)"
      "\<lparr>multi = True,
      columns = [(''STATION'', ''''), (''LAT'', ''''), (''LON'', ''''), (''NETID'', ''''),
                 (''HHE'', ''COMMENT'')],
      index = [Num (Fin 0)],
      rows = [[Str ''ABC'', Num (Fin 34), Num (Fin (-118)), Str ''CI'', Str ''x'']]\<rparr>"]
    no_measurement_data_iff [of "[''HHE'', ''LAT'', ''LON'', ''NETID'', ''STATION'']"
      "\<lambda>s. Some (Fin 0)"
      "\<lparr>multi = True,
      columns = [(''STATION'', ''''), (''LAT'', ''''), (''LON'', ''''), (''NETID'', ''''),
                 (''HHE'', ''PGA'')],
      index = [Num (Fin 0)],
      rows = [[Str ''ABC'', Num (Fin 34), Num (Fin (-118)), Str ''CI'', Num (Fin 1)]]\<rparr>"]
  by (simp add: REQUIRED_COLUMNS_def OPTIONAL_def channel_set_def py_set_def Let_def
      CHANNEL_GROUPS_def num_channels_def any_match_def re_match_def channels_valid_def
      pgm_column_under_channel_def)

text \<open>Claim C7 as stated fails on a table without the column \<^verbatim>\<open>LAT\<close>: it has no
  \<^verbatim>\<open>INTENSITY\<close> column and no PGM column under its channel \<open>HHE\<close>, and the read
  fails with the error of the required columns, not with the no-measurement-data error.\<close>

theorem no_measurement_data_iff_counterexample:
  "''INTENSITY'' \<notin> set [''HHE'', ''LON'', ''NETID'', ''STATION'']
   \<and> \<not> pgm_column_under_channel
         \<lparr>multi = True,
          columns = [(''STATION'', ''''), (''LON'', ''''), (''NETID'', ''''), (''HHE'', ''COMMENT'')],
          index = [Num (Fin 0)],
          rows = [[Str ''ABC'', Num (Fin (-118)), Str ''CI'', Str ''x'']]\<rparr>
         [''HHE'', ''LON'', ''NETID'', ''STATION'']
   \<and> check_frame (\<lambda>s. None)
        \<lparr>multi = True,
         columns = [(''STATION'', ''''), (''LON'', ''''), (''NETID'', ''''), (''HHE'', ''COMMENT'')],
         index = [Num (Fin 0)],
         rows = [[Str ''ABC'', Num (Fin (-118)), Str ''CI'', Str ''x'']]\<rparr>
        [''HHE'', ''LON'', ''NETID'', ''STATION'']
      = Inl MissingRequiredColumns"
  by (simp add: check_frame_def REQUIRED_COLUMNS_def pgm_column_under_channel_def)

section \<open>Theorems about the writers\<close>

lemma upper_kinds:
  "upper ''pga'' = ''PGA''" "upper ''pgv'' = ''PGV''" "upper ''psa03'' = ''PSA03''"
  "upper ''HHE'' = ''HHE''"
  by code_simp+

lemma translate_psa03: "translate_imt ''psa03'' [''PGA'', ''PGV''] = Inl UnboundLocalError"
  by (simp add: translate_imt_def upper_kinds search_digits_def is_digit_def startswith_def)

lemma pga_pgv_channels: "frame_channels (\<lambda>xs. xs) pga_pgv_frame = [''HHE'']"
  by (simp add: frame_channels_def pga_pgv_frame_def levels0_def channel_set_def py_set_def
      REQUIRED_COLUMNS_def OPTIONAL_def get_channels_def CHANNEL_PATTERNS_def
      re_search_anchored_def)

lemma pga_pgv_rows: "iterrows pga_pgv_frame = [pga_pgv_row]"
  by (simp add: iterrows_def pga_pgv_frame_def pga_pgv_row_def)

lemma pgm_values:
  "pgm_value [(''PGA'', Num (Fin 1)), (''PGV'', Num (Fin 2))] ''pga'' = Inr (Some (Fin 1))"
  "pgm_value [(''PGA'', Num (Fin 1)), (''PGV'', Num (Fin 2))] ''pgv'' = Inr (Some (Fin 2))"
  "pgm_value [(''PGA'', Num (Fin 1)), (''PGV'', Num (Fin 2))] ''psa03'' = Inl UnboundLocalError"
  using translate_psa03
  by (simp_all add: pgm_value_def translate_imt_def upper_kinds)

lemma json_pgms_raises:
  "json_pgms lib [(''PGA'', Num (Fin 1)), (''PGV'', Num (Fin 2))] ''HHE'' PGMS [(''HHE'', [])]
     = Inl UnboundLocalError"
  by (simp add: PGMS_def pgm_values dict_set_def dict_has_def)

lemma xml_pgms_raises:
  "xml_pgms (lib\<lparr>xml_text_ok := \<lambda>s. True\<rparr>) [(''PGA'', Num (Fin 1)), (''PGV'', Num (Fin 2))] PGMS []
     = Inl UnboundLocalError"
  by (simp add: PGMS_def pgm_values set_attr_def)

lemma station_code_abc: "station_code lib pga_pgv_row = Inr ''CI.ABC''"
  by (simp add: pga_pgv_row_def station_code_def tm_get_def strip_of_def str_of_def strip_def
      is_space_def startswith_def)

lemma json_station_raises:
  "json_station lib [''HHE''] pga_pgv_row ''CI.ABC'' = Inl UnboundLocalError"
  by (simp add: pga_pgv_row_def json_station_def tm_get_def tm_in_def fmt_f_def JSON_FIELDS_def
      convert_def strip_of_def row_channel_def json_pgms_raises dict_has_def dict_set_def
      upper_kinds)

lemma xml_station_raises:
  "xml_station (lib\<lparr>xml_text_ok := \<lambda>s. True\<rparr>) pga_pgv_frame [''HHE''] pga_pgv_row ''CI.ABC''
     = Inl UnboundLocalError"
  by (simp add: pga_pgv_row_def xml_station_def tm_get_def tm_in_def fmt_f_def XML_FIELDS_def
      convert_def strip_of_def row_channel_def xml_pgms_raises dict_has_def dict_set_def
      upper_kinds set_attr_def)

text \<open>Claim C8. The claim is that a measurement kind that cannot be matched to any column
  of a channel's sub-table is skipped without the writer failing. For \<^verbatim>\<open>psa03\<close> and a
  sub-table with the columns \<^verbatim>\<open>PGA\<close> and \<^verbatim>\<open>PGV\<close>, \<^verbatim>\<open>_translate_imt\<close> raises
  \<^verbatim>\<open>UnboundLocalError\<close>, and so do both writers on a frame whose channel \<^verbatim>\<open>HHE\<close> has
  these two columns; no file is written.\<close>

theorem unmatched_kind_raises:
  "translate_imt ''psa03'' [''PGA'', ''PGV''] = Inl UnboundLocalError
   \<and> dataframe_to_json lib (\<lambda>xs. xs) now pga_pgv_frame jsonfile fs = (Some UnboundLocalError, fs)
   \<and> dataframe_to_xml (lib\<lparr>xml_text_ok := \<lambda>s. True\<rparr>) (\<lambda>xs. xs) now pga_pgv_frame xmlfile
        reference fs' = (Some UnboundLocalError, fs')"
  using translate_psa03
  by (simp add: dataframe_to_json_def dataframe_to_xml_def xml_tree_def pga_pgv_channels
      pga_pgv_rows station_code_abc json_station_raises xml_station_raises set_attr_def
      split: option.splits)

lemma tm_get_absent: "\<not> tm_in key r \<Longrightarrow> tm_get r key = Inl (KeyError key)"
proof -
  assume "\<not> tm_in key r"
  then have "filter (\<lambda>((t, s), c). t = key) r = []"
    by (force simp: tm_in_def filter_empty_conv)
  then show ?thesis by (simp add: tm_get_def)
qed

lemma tm_in_iterrows:
  "r \<in> set (iterrows df) \<Longrightarrow> tm_in key r \<Longrightarrow> key \<in> set (map fst (columns df))"
  by (auto simp: iterrows_def tm_in_def dest!: set_zip_leftD)

lemma json_station_no_elev:
  assumes "\<not> tm_in ''ELEV'' r"
  shows "\<exists>e. json_station lib channels r stationcode = Inl e"
proof (cases "and_then (tm_get r ''LAT'') (fmt_f lib 4)")
  case (Inl e)
  then show ?thesis by (simp add: json_station_def)
next
  case lat: (Inr lat)
  show ?thesis
  proof (cases "and_then (tm_get r ''LON'') (fmt_f lib 4)")
    case (Inl e)
    then show ?thesis using lat by (simp add: json_station_def)
  next
    case (Inr lon)
    then show ?thesis
      using lat tm_get_absent [OF assms] by (simp add: json_station_def)
  qed
qed

lemma json_station_keyerror:
  assumes "\<not> tm_in ''ELEV'' r"
    and "tm_get r ''LAT'' = Inr (Scalar (Num lat))"
    and "tm_get r ''LON'' = Inr (Scalar (Num lon))"
  shows "json_station lib channels r stationcode = Inl (KeyError ''ELEV'')"
  using assms(2,3) tm_get_absent [OF assms(1)] by (simp add: json_station_def fmt_f_def)

text \<open>Claim C10. For a frame with at least one row and no column \<^verbatim>\<open>ELEV\<close>,
  \<^verbatim>\<open>dataframe_to_json\<close> raises an exception and writes no file. When the first row has
  a station code (\<^verbatim>\<open>STATION\<close> present, \<^verbatim>\<open>NETID\<close> a string) and numbers for \<^verbatim>\<open>LAT\<close>
  and \<^verbatim>\<open>LON\<close>, the exception is the \<^verbatim>\<open>KeyError\<close> of the lookup of \<^verbatim>\<open>ELEV\<close> in the
  geometry of the first feature.\<close>

theorem json_requires_elev:
  assumes rows: "rows df \<noteq> []"
    and noelev: "''ELEV'' \<notin> set (map fst (columns df))"
  shows "(\<exists>e. dataframe_to_json lib order now df jsonfile fs = (Some e, fs))
    \<and> (\<forall>code lat lon.
          station_code lib (hd (iterrows df)) = Inr code
          \<and> tm_get (hd (iterrows df)) ''LAT'' = Inr (Scalar (Num lat))
          \<and> tm_get (hd (iterrows df)) ''LON'' = Inr (Scalar (Num lon))
          \<longrightarrow> dataframe_to_json lib order now df jsonfile fs = (Some (KeyError ''ELEV''), fs))"
proof -
  obtain r rs where it: "iterrows df = r # rs"
    using rows by (cases "rows df") (auto simp: iterrows_def)
  have ne: "\<not> tm_in ''ELEV'' r"
    using tm_in_iterrows [of r df "''ELEV''"] it noelev by auto
  let ?ch = "frame_channels order df"
  have first: "json_rows lib ?ch (r # rs) ([], []) =
      and_then (station_code lib r) (\<lambda>stationcode.
        and_then (json_station lib ?ch r stationcode) (\<lambda>station.
          json_rows lib ?ch rs ([station], [stationcode])))"
    by simp
  have fails: "\<exists>e. json_rows lib ?ch (r # rs) ([], []) = Inl e"
  proof (cases "station_code lib r")
    case (Inl e)
    then show ?thesis unfolding first by simp
  next
    case (Inr code)
    from json_station_no_elev [OF ne, of lib ?ch code]
    obtain e where "json_station lib ?ch r code = Inl e" by blast
    then show ?thesis unfolding first using Inr by simp
  qed
  have a: "\<exists>e. dataframe_to_json lib order now df jsonfile fs = (Some e, fs)"
    using fails by (auto simp: dataframe_to_json_def it)
  have b: "dataframe_to_json lib order now df jsonfile fs = (Some (KeyError ''ELEV''), fs)"
    if "station_code lib r = Inr code" "tm_get r ''LAT'' = Inr (Scalar (Num lat))"
      "tm_get r ''LON'' = Inr (Scalar (Num lon))" for code lat lon
    using that json_station_keyerror [OF ne that(2,3), of lib ?ch code]
    unfolding dataframe_to_json_def it first by simp
  show ?thesis using a b by (simp add: it)
qed

text \<open>The theorem on a frame with one station, the channel \<open>HHE\<close> and no elevation.\<close>

theorem json_requires_elev_witness:
  "dataframe_to_json lib0 (\<lambda>xs. xs) 0 no_elev_frame ''stations.json'' Map.empty
     = (Some (KeyError ''ELEV''), Map.empty)"
proof -
  have r: "rows no_elev_frame \<noteq> []" by (simp add: no_elev_frame_def)
  have c: "''ELEV'' \<notin> set (map fst (columns no_elev_frame))" by (simp add: no_elev_frame_def)
  have h: "station_code lib0 (hd (iterrows no_elev_frame)) = Inr ''CI.ABC''"
    "tm_get (hd (iterrows no_elev_frame)) ''LAT'' = Inr (Scalar (Num (Fin 34)))"
    "tm_get (hd (iterrows no_elev_frame)) ''LON'' = Inr (Scalar (Num (Fin (- 118))))"
    by (simp_all add: no_elev_frame_def iterrows_def station_code_def tm_get_def strip_of_def
        str_of_def strip_def is_space_def startswith_def)
  from json_requires_elev [OF r c, of lib0 "\<lambda>xs. xs" 0 "''stations.json''" Map.empty] h
  show ?thesis by blast
qed

lemma sort_get_channels:
  assumes "iteration_of xs ys" and "iteration_of xs zs"
  shows "sort (get_channels ys) = sort (get_channels zs)"
proof (rule sorted_distinct_set_unique)
  show "sorted (sort (get_channels ys))" "sorted (sort (get_channels zs))"
    by simp_all
  show "distinct (sort (get_channels ys))" "distinct (sort (get_channels zs))"
    using assms by (simp_all add: iteration_of_def get_channels_def)
  show "set (sort (get_channels ys)) = set (sort (get_channels zs))"
    using assms by (simp add: iteration_of_def get_channels_def)
qed

lemma frame_channels_sorted:
  assumes "iteration_of (channel_set (levels0 df)) (oa (channel_set (levels0 df)))"
    and "iteration_of (channel_set (levels0 df)) (ob (channel_set (levels0 df)))"
  shows "sort (frame_channels oa df) = sort (frame_channels ob df)"
  using sort_get_channels [OF assms] by (simp add: frame_channels_def)

lemma xml_station_sort:
  "sort ch = sort ch' \<Longrightarrow> xml_station lib df ch r code = xml_station lib df ch' r code"
  by (simp add: xml_station_def)

lemma xml_rows_sort:
  assumes "sort ch = sort ch'"
  shows "xml_rows lib df ch rs st = xml_rows lib df ch' rs st"
proof (induction rs arbitrary: st)
  case Nil
  show ?case by (cases st) simp
next
  case (Cons r rs)
  obtain stations processed where st: "st = (stations, processed)" by (cases st)
  show ?case
    unfolding st
    by (cases "station_code lib r")
       (simp_all add: Cons.IH xml_station_sort [OF assms] and_then_def split: sum.splits)
qed

lemma xml_tree_created:
  "map_sum id (set_created c) (xml_tree lib order t reference df) =
     and_then (case reference of
                 None \<Rightarrow> Inr [(''created'', c)]
               | Some ref \<Rightarrow> set_attr lib ''reference'' ref [(''created'', c)])
       (\<lambda>attrs.
     and_then (xml_rows lib df (frame_channels order df) (iterrows df) ([], [])) (\<lambda>stations.
       Inr (Element ''shakemap-data'' [(''code_version'', ''3.5''), (''map_version'', ''3'')]
              [Element ''stationlist'' attrs stations])))"
  by (cases "xml_rows lib df (frame_channels order df) (iterrows df) ([], [])")
     (auto simp: xml_tree_def set_attr_def dict_set_def dict_has_def split: option.splits)

text \<open>Claim C9. Two runs of \<^verbatim>\<open>dataframe_to_xml\<close> on the same frame, reference and
  file name, at the times \<open>ta\<close> and \<open>tb\<close> and with Python iterating over the set of
  channel candidates in two orders, raise the same exception or write the same document,
  once the value of \<^verbatim>\<open>created\<close> on \<^verbatim>\<open>stationlist\<close> is set to the same string \<open>c\<close> in
  both.\<close>

theorem xml_two_runs:
  assumes "iteration_of (channel_set (levels0 df)) (oa (channel_set (levels0 df)))"
    and "iteration_of (channel_set (levels0 df)) (ob (channel_set (levels0 df)))"
  shows "map_prod id (\<lambda>fs'. map_option (set_created c) (fs' xmlfile))
           (dataframe_to_xml lib oa ta df xmlfile reference fs)
       = map_prod id (\<lambda>fs'. map_option (set_created c) (fs' xmlfile))
           (dataframe_to_xml lib ob tb df xmlfile reference fs)"
proof -
  let ?run = "\<lambda>order t. xml_tree lib order t reference df"
  have rows: "xml_rows lib df (frame_channels oa df) (iterrows df) ([], []) =
              xml_rows lib df (frame_channels ob df) (iterrows df) ([], [])"
    by (rule xml_rows_sort [OF frame_channels_sorted [where oa = oa and ob = ob, OF assms]])
  have trees: "map_sum id (set_created c) (?run oa ta) = map_sum id (set_created c) (?run ob tb)"
    by (simp only: xml_tree_created rows)
  show ?thesis
  proof (cases "?run oa ta")
    case l: (Inl e)
    with trees have "?run ob tb = Inl e"
      by (cases "?run ob tb") simp_all
    with l show ?thesis by (simp add: dataframe_to_xml_def)
  next
    case r: (Inr tree)
    with trees obtain tree' where r': "?run ob tb = Inr tree'"
      and eq: "set_created c tree = set_created c tree'"
      by (cases "?run ob tb") simp_all
    from r r' eq show ?thesis by (simp add: dataframe_to_xml_def)
  qed
qed

text \<open>The theorem on a frame with the channels \<open>HHE\<close> and \<open>HHN\<close>, at the times 1 and
  2, with the set iterated in one order and in the reverse order.\<close>

theorem xml_two_runs_witness:
  "map_prod id (\<lambda>fs'. map_option (set_created '''') (fs' ''out.xml''))
     (dataframe_to_xml lib0 (\<lambda>xs. xs) 1 two_channel_frame ''out.xml'' None Map.empty)
   = map_prod id (\<lambda>fs'. map_option (set_created '''') (fs' ''out.xml''))
     (dataframe_to_xml lib0 rev 2 two_channel_frame ''out.xml'' None Map.empty)"
proof -
  have c: "channel_set (levels0 two_channel_frame) = [''HHE'', ''HHN'']"
    by code_simp
  have h1: "iteration_of (channel_set (levels0 two_channel_frame))
      ((\<lambda>xs. xs) (channel_set (levels0 two_channel_frame)))"
    by (simp add: c iteration_of_def)
  have h2: "iteration_of (channel_set (levels0 two_channel_frame))
      (rev (channel_set (levels0 two_channel_frame)))"
    by (auto simp: c iteration_of_def)
  show ?thesis
    by (rule xml_two_runs [where oa = "\<lambda>xs. xs" and ob = rev, OF h1 h2])
qed

end
